theory Spec2Isabelle
  imports Main "HOL-Library.Word" "HOL-Library.Monad_Syntax"
begin

unbundle bit_operations_syntax

section \<open>Machine types and platform constants\<close>

text \<open>
  The window core of \<^verbatim>\<open>src/win32/main.cc\<close> is embedded for a 64-bit Windows build:
  \<^verbatim>\<open>uint32_t\<close>, \<^verbatim>\<open>int32_t\<close>, \<^verbatim>\<open>UINT\<close>, \<^verbatim>\<open>DWORD\<close> and \<^verbatim>\<open>LONG\<close> are 32-bit words
  (arithmetic wraps; signedness only matters in comparisons, which use \<open><s\<close>),
  \<^verbatim>\<open>size_t\<close>, \<^verbatim>\<open>WPARAM\<close>, \<^verbatim>\<open>LPARAM\<close>, \<^verbatim>\<open>LRESULT\<close> and pointers are 64-bit words,
  and the null pointer is the word 0.
\<close>

type_synonym uint32_t = "32 word"
type_synonym int32_t = "32 word"
type_synonym UINT = "32 word"
type_synonym DWORD = "32 word"
type_synonym LONG = "32 word"
type_synonym size_t = "64 word"
type_synonym pointer = "64 word"
type_synonym WPARAM = "64 word"
type_synonym LPARAM = "64 word"
type_synonym LRESULT = "64 word"

definition nullptr :: pointer where
  "nullptr = 0"

text \<open>
  Constants of the Windows SDK headers, which are not part of the repository. Their
  values are those of \<^verbatim>\<open>WinUser.h\<close>; the baseline DPI 96 is the one the specification
  names as the reference DPI.
\<close>

definition USER_DEFAULT_SCREEN_DPI :: uint32_t where
  "USER_DEFAULT_SCREEN_DPI = 96"

definition WS_POPUP :: DWORD where "WS_POPUP = 0x80000000"
definition WS_OVERLAPPEDWINDOW :: DWORD where "WS_OVERLAPPEDWINDOW = 0x00CF0000"
definition WS_CLIPCHILDREN :: DWORD where "WS_CLIPCHILDREN = 0x02000000"
definition WS_CLIPSIBLINGS :: DWORD where "WS_CLIPSIBLINGS = 0x04000000"

definition SIZE_RESTORED :: WPARAM where "SIZE_RESTORED = 0"
definition SIZE_MINIMIZED :: WPARAM where "SIZE_MINIMIZED = 1"
definition SIZE_MAXIMIZED :: WPARAM where "SIZE_MAXIMIZED = 2"
definition SIZE_MAXSHOW :: WPARAM where "SIZE_MAXSHOW = 3"
definition SIZE_MAXHIDE :: WPARAM where "SIZE_MAXHIDE = 4"

definition SC_KEYMENU :: WPARAM where "SC_KEYMENU = 0xF100"
definition VK_RETURN :: LPARAM where "VK_RETURN = 0x0D"

definition SW_NORMAL :: int where "SW_NORMAL = 1"
definition SW_MAXIMIZE :: int where "SW_MAXIMIZE = 3"
definition SW_SHOW :: int where "SW_SHOW = 5"

definition GWL_STYLE :: int where "GWL_STYLE = - 16"
definition GWL_EXSTYLE :: int where "GWL_EXSTYLE = - 20"

definition SWP_NOMOVE :: UINT where "SWP_NOMOVE = 0x0002"
definition SWP_NOZORDER :: UINT where "SWP_NOZORDER = 0x0004"
definition SWP_NOACTIVATE :: UINT where "SWP_NOACTIVATE = 0x0010"
definition SWP_FRAMECHANGED :: UINT where "SWP_FRAMECHANGED = 0x0020"
definition SWP_NOOWNERZORDER :: UINT where "SWP_NOOWNERZORDER = 0x0200"

definition WM_SYSCOMMAND :: UINT where "WM_SYSCOMMAND = 0x0112"

definition LOWORD :: "64 word \<Rightarrow> 16 word" where
  "LOWORD l = ucast (l AND 0xffff)"

definition HIWORD :: "64 word \<Rightarrow> 16 word" where
  "HIWORD l = ucast (drop_bit 16 l AND 0xffff)"


section \<open>Geometry converter\<close>

text \<open>
  \<^verbatim>\<open>#define PhysicalToLogicalPixels(_dim, _dpi) (((_dim) * USER_DEFAULT_SCREEN_DPI) / (_dpi))\<close>
  \<^verbatim>\<open>#define LogicalToPhysicalPixels(_dim, _dpi) (((_dim) * (_dpi)) / USER_DEFAULT_SCREEN_DPI)\<close>

  Every use in the source applies the macros to \<^verbatim>\<open>uint32_t\<close>/\<^verbatim>\<open>UINT\<close> operands, so
  the product wraps at \<open>2 ^ 32\<close> and the division is unsigned. A zero DPI makes the
  first macro divide by zero, which traps: that is the value \<open>None\<close>.
\<close>

definition PhysicalToLogicalPixels :: "uint32_t \<Rightarrow> uint32_t \<Rightarrow> uint32_t option" where
  "PhysicalToLogicalPixels dim dpi =
     (if dpi = 0 then None else Some ((dim * USER_DEFAULT_SCREEN_DPI) div dpi))"

definition LogicalToPhysicalPixels :: "uint32_t \<Rightarrow> uint32_t \<Rightarrow> uint32_t" where
  "LogicalToPhysicalPixels dim dpi = (dim * dpi) div USER_DEFAULT_SCREEN_DPI"


section \<open>Data model\<close>

text \<open>The status and event bits of \<^verbatim>\<open>WSI_WINDOW_STATUS_FLAGS\<close> and \<^verbatim>\<open>WSI_WINDOW_EVENT_FLAGS\<close>.\<close>

definition WSI_WINDOW_STATUS_FLAGS_NONE :: uint32_t where "WSI_WINDOW_STATUS_FLAGS_NONE = 0"
definition WSI_WINDOW_STATUS_FLAG_CREATED :: uint32_t where "WSI_WINDOW_STATUS_FLAG_CREATED = 1"
definition WSI_WINDOW_STATUS_FLAG_VISIBLE :: uint32_t where "WSI_WINDOW_STATUS_FLAG_VISIBLE = 4"
definition WSI_WINDOW_STATUS_FLAG_FULLSCREEN :: uint32_t where "WSI_WINDOW_STATUS_FLAG_FULLSCREEN = 8"

definition WSI_WINDOW_EVENT_FLAGS_NONE :: uint32_t where "WSI_WINDOW_EVENT_FLAGS_NONE = 0"
definition WSI_WINDOW_EVENT_FLAG_CREATED :: uint32_t where "WSI_WINDOW_EVENT_FLAG_CREATED = 1"
definition WSI_WINDOW_EVENT_FLAG_SHOWN :: uint32_t where "WSI_WINDOW_EVENT_FLAG_SHOWN = 4"
definition WSI_WINDOW_EVENT_FLAG_HIDDEN :: uint32_t where "WSI_WINDOW_EVENT_FLAG_HIDDEN = 8"
definition WSI_WINDOW_EVENT_FLAG_SIZE_CHANGED :: uint32_t where "WSI_WINDOW_EVENT_FLAG_SIZE_CHANGED = 64"
definition WSI_WINDOW_EVENT_FLAG_POSITION_CHANGED :: uint32_t where "WSI_WINDOW_EVENT_FLAG_POSITION_CHANGED = 128"

text \<open>\<^verbatim>\<open>RECT\<close>; the field \<^verbatim>\<open>top\<close> is written \<open>top'\<close> since \<open>top\<close> is a HOL constant.\<close>

record RECT =
  left :: LONG
  top' :: LONG
  right :: LONG
  bottom :: LONG

text \<open>
  \<^verbatim>\<open>BITMAPINFOHEADER\<close>, the only part of \<^verbatim>\<open>BITMAPINFO\<close> the program writes. The colour
  table entry that follows it is only ever zeroed and is left out.
\<close>

record BITMAPINFOHEADER =
  biSize :: DWORD
  biWidth :: LONG
  biHeight :: LONG
  biPlanes :: "16 word"
  biBitCount :: "16 word"
  biCompression :: DWORD
  biSizeImage :: DWORD
  biXPelsPerMeter :: LONG
  biYPelsPerMeter :: LONG
  biClrUsed :: DWORD
  biClrImportant :: DWORD

definition BI_RGB :: DWORD where "BI_RGB = 0"

definition sizeof_BITMAPINFOHEADER :: DWORD where
  "sizeof_BITMAPINFOHEADER = 40"

definition zero_BITMAPINFOHEADER :: BITMAPINFOHEADER where
  "zero_BITMAPINFOHEADER =
     \<lparr>biSize = 0, biWidth = 0, biHeight = 0, biPlanes = 0, biBitCount = 0,
      biCompression = 0, biSizeImage = 0, biXPelsPerMeter = 0, biYPelsPerMeter = 0,
      biClrUsed = 0, biClrImportant = 0\<rparr>"

text \<open>
  The dispatch table holds two function pointers, each either the entry point found in
  \<^verbatim>\<open>Shcore.dll\<close> or the stub of this file.
\<close>

datatype entry_point = Shcore | Stub

record WIN32API_DISPATCH =
  SetProcessDpiAwareness :: entry_point
  GetDpiForMonitor :: entry_point
  ModuleHandle_Shcore :: pointer

record WSI_WINDOW_STATE =
  Win32Handle :: pointer
  StatusFlags :: uint32_t
  EventFlags :: uint32_t
  OutputDpiX :: uint32_t
  OutputDpiY :: uint32_t
  PositionX :: int32_t
  PositionY :: int32_t
  WindowSizeX :: uint32_t
  WindowSizeY :: uint32_t
  ClientSizeX :: uint32_t
  ClientSizeY :: uint32_t
  RestoreRect :: RECT
  RestoreStyle :: DWORD
  RestoreStyleEx :: DWORD
  BackBufferMemory :: pointer
  BackBufferWidth :: uint32_t
  BackBufferHeight :: uint32_t
  BackBufferStride :: uint32_t
  BackBufferInfo :: BITMAPINFOHEADER
  Win32Api :: WIN32API_DISPATCH

text \<open>\<^verbatim>\<open>RTC_FRAMEBUFFER\<close> of \<^verbatim>\<open>include/display.h\<close>.\<close>

record RTC_FRAMEBUFFER =
  Base :: pointer
  Width :: uint32_t
  Height :: uint32_t
  Stride :: uint32_t


section \<open>The platform as seen by one call\<close>

text \<open>
  The Win32 calls that change something outside the program are recorded, in order, in
  a log that every operation returns next to the new window state.
\<close>

record blit =
  dst_x :: int32_t
  dst_y :: int32_t
  dst_w :: int32_t
  dst_h :: int32_t
  src_x :: int32_t
  src_y :: int32_t
  src_w :: int32_t
  src_h :: int32_t
  bits :: pointer
  info :: BITMAPINFOHEADER

datatype win32_call =
    VirtualAlloc size_t
  | VirtualFree pointer
  | SetWindowPos LONG LONG LONG LONG UINT
  | SetWindowLong int DWORD
  | ShowWindow int
  | StretchDIBits blit
  | DefWindowProc UINT WPARAM LPARAM
  | BeginPaint
  | EndPaint
  | GetDC pointer
  | ReleaseDC pointer
  | DestroyWindow
  | Sleep DWORD

text \<open>
  What the platform answers during one call of a handler. Each handler asks each
  question at most once, so one answer per question describes the call completely.
  \<open>VirtualAlloc_result\<close> maps the requested size to the returned address, \<open>nullptr\<close>
  when the allocation fails. \<open>monitor_dpi\<close> is what the \<^verbatim>\<open>Shcore.dll\<close> entry point
  writes to its two output parameters, \<open>None\<close> when it fails and writes nothing.
  \<open>suggested_rect\<close> is the \<^verbatim>\<open>RECT\<close> the \<^verbatim>\<open>LPARAM\<close> of \<^verbatim>\<open>WM_DPICHANGED\<close> points to.
  Messages that a Win32 call sends to the window procedure before it returns are not
  part of the model.
\<close>

record win32_env =
  monitor_dpi :: "(UINT \<times> UINT) option"
  device_caps :: "DWORD \<times> DWORD"
  window_rect :: RECT
  client_rect :: RECT
  window_style :: DWORD
  window_style_ex :: DWORD
  monitor_rect :: RECT
  AdjustWindowRectEx :: "RECT \<Rightarrow> DWORD \<Rightarrow> DWORD \<Rightarrow> RECT"
  VirtualAlloc_result :: "size_t \<Rightarrow> pointer"
  suggested_rect :: RECT
  DefWindowProc_result :: LRESULT


section \<open>DPI resolver\<close>

text \<open>
  \<^verbatim>\<open>GetDpiForMonitor_Stub\<close> answers a request for the effective DPI with the device
  capabilities of the screen, which it reads between \<^verbatim>\<open>GetDC(NULL)\<close> and
  \<^verbatim>\<open>ReleaseDC(NULL, ...)\<close>, and any other request with the baseline DPI and an error,
  without a call. It returns the \<^verbatim>\<open>HRESULT\<close>, the two values written and the calls
  made.
\<close>

datatype MONITOR_DPI_TYPE = MDT_EFFECTIVE_DPI | MDT_ANGULAR_DPI | MDT_RAW_DPI

definition S_OK :: "32 word" where "S_OK = 0"
definition E_INVALIDARG :: "32 word" where "E_INVALIDARG = 0x80070057"

definition GetDpiForMonitor_Stub ::
  "win32_env \<Rightarrow> MONITOR_DPI_TYPE \<Rightarrow> 32 word \<times> (UINT \<times> UINT) \<times> win32_call list"
where
  "GetDpiForMonitor_Stub env type =
     (if type = MDT_EFFECTIVE_DPI
      then (S_OK, device_caps env, [GetDC nullptr, ReleaseDC nullptr])
      else (E_INVALIDARG, (USER_DEFAULT_SCREEN_DPI, USER_DEFAULT_SCREEN_DPI), []))"

text \<open>
  A call through the dispatch table, as every handler makes it: the request is for
  \<^verbatim>\<open>MDT_EFFECTIVE_DPI\<close>, the \<^verbatim>\<open>HRESULT\<close> is ignored, and the two variables start
  from \<^verbatim>\<open>USER_DEFAULT_SCREEN_DPI\<close>, which stays when the \<^verbatim>\<open>Shcore.dll\<close> entry
  point fails. The result is the two DPI values and the calls made.
\<close>

definition call_GetDpiForMonitor ::
  "WIN32API_DISPATCH \<Rightarrow> win32_env \<Rightarrow> (UINT \<times> UINT) \<times> win32_call list"
where
  "call_GetDpiForMonitor winapi env =
     (case GetDpiForMonitor winapi of
        Stub \<Rightarrow> snd (GetDpiForMonitor_Stub env MDT_EFFECTIVE_DPI)
      | Shcore \<Rightarrow>
          (case monitor_dpi env of
             None \<Rightarrow> ((USER_DEFAULT_SCREEN_DPI, USER_DEFAULT_SCREEN_DPI), [])
           | Some d \<Rightarrow> (d, [])))"

text \<open>
  The start of \<^verbatim>\<open>wWinMain\<close> fills the dispatch table: \<open>shcore\<close> is the handle
  \<^verbatim>\<open>LoadLibraryW\<close> returned, and the two flags say whether \<^verbatim>\<open>GetProcAddress\<close>
  found the entry point.
\<close>

definition wWinMain_resolve :: "pointer \<Rightarrow> bool \<Rightarrow> bool \<Rightarrow> WIN32API_DISPATCH" where
  "wWinMain_resolve shcore found_GetDpiForMonitor found_SetProcessDpiAwareness =
     (if shcore \<noteq> nullptr
      then \<lparr>SetProcessDpiAwareness = (if found_SetProcessDpiAwareness then Shcore else Stub),
            GetDpiForMonitor = (if found_GetDpiForMonitor then Shcore else Stub),
            ModuleHandle_Shcore = shcore\<rparr>
      else \<lparr>SetProcessDpiAwareness = Stub, GetDpiForMonitor = Stub,
            ModuleHandle_Shcore = nullptr\<rparr>)"


section \<open>Backbuffer allocator\<close>

text \<open>
  \<^verbatim>\<open>ResizeBackBuffer\<close>: returns the return code (0 or -1), the window state and the
  calls made. The bitmap header is rewritten before the allocation is attempted.
\<close>

definition ResizeBackBuffer ::
  "win32_env \<Rightarrow> WSI_WINDOW_STATE \<Rightarrow> uint32_t \<Rightarrow> uint32_t \<Rightarrow> int \<times> WSI_WINDOW_STATE \<times> win32_call list"
where
  "ResizeBackBuffer env window physical_x_px physical_y_px =
     (let prev_mem = BackBufferMemory window;
          prev_x_px = BackBufferWidth window;
          prev_y_px = BackBufferHeight window;
          num_bytes = (ucast physical_x_px :: size_t) * ucast physical_y_px * 4
      in if physical_x_px = prev_x_px \<and> physical_y_px = prev_y_px \<and> prev_mem \<noteq> nullptr
         then (0, window, [])
         else
           let hdr = zero_BITMAPINFOHEADER
                 \<lparr>biSize := sizeof_BITMAPINFOHEADER,
                  biWidth := physical_x_px,
                  biHeight := - physical_y_px,
                  biPlanes := 1,
                  biBitCount := 32,
                  biCompression := BI_RGB\<rparr>;
               window1 = window\<lparr>BackBufferInfo := hdr\<rparr>;
               bmap_mem = VirtualAlloc_result env num_bytes
           in if bmap_mem = nullptr
              then (- 1, window1, [VirtualAlloc num_bytes])
              else
                (0,
                 window1\<lparr>BackBufferMemory := bmap_mem,
                         BackBufferWidth := physical_x_px,
                         BackBufferHeight := physical_y_px,
                         BackBufferStride := physical_x_px * 4\<rparr>,
                 VirtualAlloc num_bytes #
                   (if prev_mem \<noteq> nullptr then [VirtualFree prev_mem] else [])))"

text \<open>
  Modelled from the spec: \<^verbatim>\<open>rtcGetFrameBuffer\<close> is declared in \<^verbatim>\<open>include/display.h\<close>
  but the repository holds no definition of it. Section 4.6 of the specification: it
  returns the current backbuffer's base address, width, height and stride, and fails
  only if no backbuffer has yet been allocated. \<open>None\<close> is the non-zero return code.
\<close>

definition rtcGetFrameBuffer :: "WSI_WINDOW_STATE \<Rightarrow> RTC_FRAMEBUFFER option" where
  "rtcGetFrameBuffer window =
     (if BackBufferMemory window = nullptr then None
      else Some \<lparr>Base = BackBufferMemory window,
                 Width = BackBufferWidth window,
                 Height = BackBufferHeight window,
                 Stride = BackBufferStride window\<rparr>)"


section \<open>Presentation\<close>



section \<open>Window state machine\<close>

text \<open>
  A handler returns \<open>None\<close> when it divides by a zero DPI, and otherwise its
  \<^verbatim>\<open>LRESULT\<close>, the window state it leaves and the calls it made.
\<close>

type_synonym handler_result = "(LRESULT \<times> WSI_WINDOW_STATE \<times> win32_call list) option"

definition WSI_WndProc_WM_CREATE ::
  "win32_env \<Rightarrow> WSI_WINDOW_STATE \<Rightarrow> WPARAM \<Rightarrow> LPARAM \<Rightarrow> handler_result"
where
  "WSI_WndProc_WM_CREATE env window wparam lparam =
     (let style = window_style env;
          ex_style = window_style_ex env;
          ((dpi_x, dpi_y), queries) = call_GetDpiForMonitor (Win32Api window) env;
          phys_x_px = LogicalToPhysicalPixels (ClientSizeX window) dpi_x;
          phys_y_px = LogicalToPhysicalPixels (ClientSizeY window) dpi_y;
          rc = AdjustWindowRectEx env
                 \<lparr>left = 0, top' = 0, right = phys_x_px, bottom = phys_y_px\<rparr> style ex_style;
          resize = SetWindowPos 0 0 (right rc - left rc) (bottom rc - top' rc)
                     (SWP_NOACTIVATE OR SWP_NOMOVE OR SWP_NOZORDER)
      in do {
           size_x \<leftarrow> PhysicalToLogicalPixels (right rc - left rc) dpi_x;
           size_y \<leftarrow> PhysicalToLogicalPixels (bottom rc - top' rc) dpi_y;
           let window1 = window
                 \<lparr>StatusFlags := WSI_WINDOW_STATUS_FLAG_CREATED,
                  EventFlags := (WSI_WINDOW_EVENT_FLAG_CREATED
                                   OR WSI_WINDOW_EVENT_FLAG_SIZE_CHANGED)
                                   OR WSI_WINDOW_EVENT_FLAG_POSITION_CHANGED,
                  OutputDpiX := dpi_x,
                  OutputDpiY := dpi_y,
                  WindowSizeX := size_x,
                  WindowSizeY := size_y\<rparr>;
           let (code, window2, calls) = ResizeBackBuffer env window1 phys_x_px phys_y_px;
           Some (0, window2, queries @ resize # calls)
         })"



definition WSI_WndProc_WM_DPICHANGED ::
  "win32_env \<Rightarrow> WSI_WINDOW_STATE \<Rightarrow> WPARAM \<Rightarrow> LPARAM \<Rightarrow> handler_result"
where
  "WSI_WndProc_WM_DPICHANGED env window wparam lparam =
     (let dpi_x = (ucast (LOWORD wparam) :: UINT);
          dpi_y = (ucast (HIWORD wparam) :: UINT);
          style = window_style env;
          ex_style = window_style_ex env;
          phys_x_px = LogicalToPhysicalPixels (ClientSizeX window) dpi_x;
          phys_y_px = LogicalToPhysicalPixels (ClientSizeY window) dpi_y;
          suggested = suggested_rect env;
          (flags, rc, calls1) =
            (if style AND WS_POPUP = 0
             then
               let flags =
                     (if left suggested \<noteq> PositionX window \<or> top' suggested \<noteq> PositionY window
                      then WSI_WINDOW_EVENT_FLAGS_NONE OR WSI_WINDOW_EVENT_FLAG_POSITION_CHANGED
                      else WSI_WINDOW_EVENT_FLAGS_NONE);
                   rc = AdjustWindowRectEx env
                          \<lparr>left = left suggested,
                           top' = top' suggested,
                           right = left suggested + phys_x_px,
                           bottom = top' suggested + phys_y_px\<rparr> style ex_style
               in (flags, rc,
                   [SetWindowPos (left rc) (top' rc) (right rc - left rc) (bottom rc - top' rc)
                      (SWP_NOACTIVATE OR SWP_NOZORDER)])
             else (WSI_WINDOW_EVENT_FLAGS_NONE, monitor_rect env, []))
      in do {
           size_x \<leftarrow> PhysicalToLogicalPixels (right rc - left rc) dpi_x;
           size_y \<leftarrow> PhysicalToLogicalPixels (bottom rc - top' rc) dpi_y;
           let window1 = window
                 \<lparr>OutputDpiX := dpi_x,
                  OutputDpiY := dpi_y,
                  PositionX := left rc,
                  PositionY := top' rc,
                  WindowSizeX := size_x,
                  WindowSizeY := size_y,
                  EventFlags := EventFlags window
                                  OR (WSI_WINDOW_EVENT_FLAG_SIZE_CHANGED OR flags)\<rparr>;
           let (code, window2, calls2) = ResizeBackBuffer env window1 phys_x_px phys_y_px;
           Some (0, window2, calls1 @ calls2)
         })"


definition WSI_WndProc_WM_SIZE ::
  "win32_env \<Rightarrow> WSI_WINDOW_STATE \<Rightarrow> WPARAM \<Rightarrow> LPARAM \<Rightarrow> handler_result"
where
  "WSI_WndProc_WM_SIZE env window wparam lparam =
     (let phy_client_w = (ucast (LOWORD lparam) :: uint32_t);
          phy_client_h = (ucast (HIWORD lparam) :: uint32_t);
          ((dpi_x, dpi_y), queries) = call_GetDpiForMonitor (Win32Api window) env;
          flags0 = WSI_WINDOW_EVENT_FLAG_SIZE_CHANGED;
          status0 = StatusFlags window
      in do {
           log_client_w \<leftarrow> PhysicalToLogicalPixels phy_client_w dpi_x;
           log_client_h \<leftarrow> PhysicalToLogicalPixels phy_client_h dpi_y;
           let (flags, status, is_visible) =
                 (if wparam = SIZE_MINIMIZED \<or> wparam = SIZE_MAXHIDE
                  then (flags0 OR WSI_WINDOW_EVENT_FLAG_HIDDEN,
                        status0 AND NOT WSI_WINDOW_STATUS_FLAG_VISIBLE,
                        False)
                  else if wparam = SIZE_RESTORED
                  then (flags0 OR WSI_WINDOW_EVENT_FLAG_SHOWN,
                        status0 OR WSI_WINDOW_STATUS_FLAG_VISIBLE,
                        True)
                  else (flags0,
                        status0 OR WSI_WINDOW_STATUS_FLAG_VISIBLE,
                        True));
           let did_size =
                 (if log_client_w = ClientSizeX window \<and> log_client_h = ClientSizeY window
                  then False else True);
           if is_visible = False \<or> did_size = False
           then Some (0, window\<lparr>StatusFlags := status\<rparr>, queries)
           else do {
             let is_fullscreen =
                   (StatusFlags window AND WSI_WINDOW_STATUS_FLAG_FULLSCREEN \<noteq> 0);
             let (code, window1, calls) = ResizeBackBuffer env window phy_client_w phy_client_h;
             let status1 =
                   (if is_fullscreen
                    then status OR WSI_WINDOW_STATUS_FLAG_FULLSCREEN
                    else status AND NOT WSI_WINDOW_STATUS_FLAG_FULLSCREEN);
             let rc = window_rect env;
             size_x \<leftarrow> PhysicalToLogicalPixels (right rc - left rc) dpi_x;
             size_y \<leftarrow> PhysicalToLogicalPixels (bottom rc - top' rc) dpi_y;
             Some (0,
                   window1\<lparr>StatusFlags := status1,
                           EventFlags := EventFlags window1 OR flags,
                           PositionX := left rc,
                           PositionY := top' rc,
                           WindowSizeX := size_x,
                           WindowSizeY := size_y,
                           ClientSizeX := log_client_w,
                           ClientSizeY := log_client_h,
                           OutputDpiX := dpi_x,
                           OutputDpiY := dpi_y\<rparr>,
                   queries @ calls)
           }
         })"


definition fullscreen_swp_flags :: UINT where
  "fullscreen_swp_flags =
     ((SWP_FRAMECHANGED OR SWP_NOACTIVATE) OR SWP_NOZORDER) OR SWP_NOOWNERZORDER"

definition WSI_WndProc_WM_SYSCOMMAND ::
  "win32_env \<Rightarrow> WSI_WINDOW_STATE \<Rightarrow> WPARAM \<Rightarrow> LPARAM \<Rightarrow> handler_result"
where
  "WSI_WndProc_WM_SYSCOMMAND env window wparam lparam =
     (if wparam AND 0xFFF0 = SC_KEYMENU \<and> lparam = VK_RETURN
      then
        let ((dpi_x, dpi_y), queries) = call_GetDpiForMonitor (Win32Api window) env
        in
        if StatusFlags window AND WSI_WINDOW_STATUS_FLAG_FULLSCREEN \<noteq> 0
        then
          let rc = RestoreRect window
          in Some (0,
                   window\<lparr>StatusFlags := StatusFlags window
                                            AND NOT WSI_WINDOW_STATUS_FLAG_FULLSCREEN\<rparr>,
                   queries @
                   [SetWindowLong GWL_STYLE (RestoreStyle window),
                    SetWindowLong GWL_EXSTYLE (RestoreStyleEx window),
                    SetWindowPos (left rc) (top' rc) (right rc - left rc) (bottom rc - top' rc)
                      fullscreen_swp_flags,
                    ShowWindow SW_NORMAL])
        else
          let window1 = window
                \<lparr>RestoreRect := window_rect env,
                 RestoreStyle := window_style env,
                 RestoreStyleEx := window_style_ex env\<rparr>;
              rc = monitor_rect env
          in Some (0,
                   window1\<lparr>StatusFlags := StatusFlags window1
                                             OR WSI_WINDOW_STATUS_FLAG_FULLSCREEN\<rparr>,
                   queries @
                   [SetWindowLong GWL_STYLE WS_POPUP,
                    SetWindowPos (left rc) (top' rc) (right rc - left rc) (bottom rc - top' rc)
                      fullscreen_swp_flags,
                    ShowWindow SW_MAXIMIZE])
      else Some (DefWindowProc_result env, window, [DefWindowProc WM_SYSCOMMAND wparam lparam]))"





section \<open>Presentation loop\<close>

text \<open>
  The part of \<^verbatim>\<open>wWinMain\<close> that fills in the window state before \<^verbatim>\<open>CreateWindowEx\<close>.
  \<open>work\<close> is the work area of the primary monitor. Mixed \<^verbatim>\<open>LONG\<close>/\<^verbatim>\<open>uint32_t\<close>
  expressions are unsigned in C, so the division by 2 is unsigned; the two comparisons
  are made after a cast to \<^verbatim>\<open>int32_t\<close> and are signed.
\<close>

definition wWinMain_init :: "WIN32API_DISPATCH \<Rightarrow> RECT \<Rightarrow> WSI_WINDOW_STATE" where
  "wWinMain_init win32 work =
     (let style = (WS_OVERLAPPEDWINDOW OR WS_CLIPCHILDREN) OR WS_CLIPSIBLINGS;
          style_ex = 0;
          dim_x_px = (800 :: uint32_t);
          dim_y_px = (600 :: uint32_t);
          rc = work;
          virtual_x = left rc + (right rc - left rc - dim_x_px) div 2;
          virtual_y = top' rc + (bottom rc - top' rc - dim_y_px) div 2;
          dim_x_px = (if (right rc - left rc) <s (virtual_x + dim_x_px)
                      then (right rc - left rc) - virtual_x else dim_x_px);
          dim_y_px = (if (bottom rc - top' rc) <s (virtual_y + dim_y_px)
                      then (bottom rc - top' rc) - virtual_y else dim_y_px)
      in \<lparr>Win32Handle = nullptr,
          StatusFlags = WSI_WINDOW_STATUS_FLAGS_NONE,
          EventFlags = WSI_WINDOW_EVENT_FLAGS_NONE,
          OutputDpiX = USER_DEFAULT_SCREEN_DPI,
          OutputDpiY = USER_DEFAULT_SCREEN_DPI,
          PositionX = virtual_x,
          PositionY = virtual_y,
          WindowSizeX = dim_x_px,
          WindowSizeY = dim_y_px,
          ClientSizeX = dim_x_px,
          ClientSizeY = dim_y_px,
          RestoreRect = \<lparr>left = 0, top' = 0, right = 0, bottom = 0\<rparr>,
          RestoreStyle = style,
          RestoreStyleEx = style_ex,
          BackBufferMemory = nullptr,
          BackBufferWidth = 0,
          BackBufferHeight = 0,
          BackBufferStride = 0,
          BackBufferInfo = zero_BITMAPINFOHEADER,
          Win32Api = win32\<rparr>)"



text \<open>
  What one iteration of the outer \<^verbatim>\<open>for\<close> loop does once the pending messages have
  been drained: \<open>Leave\<close> is the \<^verbatim>\<open>break\<close>, \<open>Stay calls\<close> the path through
  \<^verbatim>\<open>Sleep(16)\<close> with the calls made on it.
\<close>

datatype tick = Leave | Stay "win32_call list"


text \<open>
  The outer loop runs until the \<^verbatim>\<open>break\<close> and need not end. Its input is the list of
  the messages that arrive before each iteration; when that list is used up and the
  loop has not left, the result is \<open>Running\<close>. The loop keeps its log by iteration:
  the calls the handlers made during the drain, the state the checks after the drain
  read, and what those checks did.
\<close>

record iteration =
  drained :: "win32_call list"
  checked :: WSI_WINDOW_STATE
  outcome :: tick

datatype loop_result =
    Exited (final_state: WSI_WINDOW_STATE) (iterations: "iteration list")
  | Running (final_state: WSI_WINDOW_STATE) (iterations: "iteration list")

fun add_iteration :: "iteration \<Rightarrow> loop_result \<Rightarrow> loop_result" where
  "add_iteration it (Exited ws its) = Exited ws (it # its)"
| "add_iteration it (Running ws its) = Running ws (it # its)"


text \<open>The calls of a run of the loop in the order they were made.\<close>

fun iteration_calls :: "iteration \<Rightarrow> win32_call list" where
  "iteration_calls it =
     drained it @ (case outcome it of Leave \<Rightarrow> [] | Stay calls \<Rightarrow> calls)"

definition loop_calls :: "loop_result \<Rightarrow> win32_call list" where
  "loop_calls result = concat (map iteration_calls (iterations result))"



section \<open>Call logs\<close>



section \<open>A reference scenario\<close>

text \<open>
  Concrete platform answers and window states on which the operations are run below: a
  1920 by 1080 monitor at 96 DPI whose work area leaves 40 rows to the task bar, and a
  window frame of 8 pixels with a caption of 31 rows for every style that is not
  \<^verbatim>\<open>WS_POPUP\<close>. The allocator is a parameter: \<open>no_memory\<close> fails every request,
  \<open>block_at address\<close> answers every request with \<open>address\<close>.
\<close>

definition frame_rect :: "RECT \<Rightarrow> DWORD \<Rightarrow> DWORD \<Rightarrow> RECT" where
  "frame_rect rc style ex_style =
     (if style AND WS_POPUP = 0
      then \<lparr>left = left rc - 8, top' = top' rc - 31, right = right rc + 8, bottom = bottom rc + 8\<rparr>
      else rc)"

definition no_memory :: "size_t \<Rightarrow> pointer" where
  "no_memory num_bytes = nullptr"

definition block_at :: "pointer \<Rightarrow> size_t \<Rightarrow> pointer" where
  "block_at address num_bytes = address"

definition desktop_work_area :: RECT where
  "desktop_work_area = \<lparr>left = 0, top' = 0, right = 1920, bottom = 1040\<rparr>"

definition desktop_env :: "(size_t \<Rightarrow> pointer) \<Rightarrow> win32_env" where
  "desktop_env alloc =
     \<lparr>monitor_dpi = Some (96, 96),
      device_caps = (96, 96),
      window_rect = \<lparr>left = 560, top' = 220, right = 1376, bottom = 859\<rparr>,
      client_rect = \<lparr>left = 0, top' = 0, right = 800, bottom = 600\<rparr>,
      window_style = 0x06CF0000,
      window_style_ex = 0,
      monitor_rect = \<lparr>left = 0, top' = 0, right = 1920, bottom = 1080\<rparr>,
      AdjustWindowRectEx = frame_rect,
      VirtualAlloc_result = alloc,
      suggested_rect = \<lparr>left = 100, top' = 100, right = 500, bottom = 400\<rparr>,
      DefWindowProc_result = 0\<rparr>"

definition shcore_api :: WIN32API_DISPATCH where
  "shcore_api =
     \<lparr>SetProcessDpiAwareness = Shcore, GetDpiForMonitor = Shcore,
      ModuleHandle_Shcore = 0x7FFB00000000\<rparr>"

text \<open>The window once created and shown, with a backbuffer of 800 by 600 at address \<open>0x20000\<close>.\<close>

definition shown_window :: WSI_WINDOW_STATE where
  "shown_window =
     \<lparr>Win32Handle = 0x50A,
      StatusFlags = 7,
      EventFlags = 0,
      OutputDpiX = 96,
      OutputDpiY = 96,
      PositionX = 560,
      PositionY = 220,
      WindowSizeX = 816,
      WindowSizeY = 639,
      ClientSizeX = 800,
      ClientSizeY = 600,
      RestoreRect = \<lparr>left = 0, top' = 0, right = 0, bottom = 0\<rparr>,
      RestoreStyle = 0x06CF0000,
      RestoreStyleEx = 0,
      BackBufferMemory = 0x20000,
      BackBufferWidth = 800,
      BackBufferHeight = 600,
      BackBufferStride = 3200,
      BackBufferInfo = zero_BITMAPINFOHEADER
        \<lparr>biSize := 40, biWidth := 800, biHeight := - 600, biPlanes := 1, biBitCount := 32\<rparr>,
      Win32Api = shcore_api\<rparr>"

text \<open>
  The dispatch table on a host without \<^verbatim>\<open>Shcore.dll\<close>, at 120 DPI, and a screen whose
  device context reports no pixel density.
\<close>

definition stub_api :: WIN32API_DISPATCH where
  "stub_api = wWinMain_resolve nullptr False False"

definition legacy_env :: "(size_t \<Rightarrow> pointer) \<Rightarrow> win32_env" where
  "legacy_env alloc = (desktop_env alloc)\<lparr>monitor_dpi := None, device_caps := (120, 120)\<rparr>"

definition blank_env :: "(size_t \<Rightarrow> pointer) \<Rightarrow> win32_env" where
  "blank_env alloc = (desktop_env alloc)\<lparr>monitor_dpi := None, device_caps := (0, 0)\<rparr>"




section \<open>Properties of the geometry converter\<close>

lemma roundtrip_nat:
  fixes d p :: nat
  assumes p: "0 < p"
  shows "(d * p div 96) * 96 div p \<le> d \<and> d - (d * p div 96) * 96 div p \<le> 1 + 94 div p"
proof -
  define l where "l = d * p div 96"
  define r where "r = l * 96 div p"
  have l_le: "l * 96 \<le> d * p" unfolding l_def by simp
  have l_ge: "d * p \<le> l * 96 + 95"
  proof -
    have "d * p = l * 96 + d * p mod 96" unfolding l_def by simp
    moreover have "d * p mod 96 < 96" by simp
    ultimately show ?thesis by linarith
  qed
  have r_le: "r \<le> d"
  proof -
    have "r \<le> d * p div p" unfolding r_def using l_le by (rule div_le_mono)
    then show ?thesis using p by simp
  qed
  have r_ge: "l * 96 \<le> r * p + (p - 1)"
  proof -
    have "l * 96 = r * p + l * 96 mod p" unfolding r_def by simp
    moreover have "l * 96 mod p < p" using p by simp
    ultimately show ?thesis by linarith
  qed
  have "(d - r) * p = d * p - r * p" by (simp add: diff_mult_distrib)
  also have "\<dots> \<le> p + 94" using l_ge r_ge p by linarith
  finally have "d - r \<le> (p + 94) div p"
    using p by (simp add: less_eq_div_iff_mult_less_eq)
  also have "(p + 94) div p = 1 + 94 div p"
    using p div_add_self1 [of p 94] by simp
  finally show ?thesis using r_le unfolding r_def l_def by simp
qed

lemma unat_LogicalToPhysicalPixels:
  assumes "unat d * unat p < 2 ^ 32"
  shows "unat (LogicalToPhysicalPixels d p) = unat d * unat p div 96"
proof -
  have "unat (d * p) = unat d * unat p"
    using assms unat_mult_lem [of d p] by simp
  then show ?thesis
    by (simp add: LogicalToPhysicalPixels_def USER_DEFAULT_SCREEN_DPI_def unat_div)
qed

lemma unat_PhysicalToLogicalPixels:
  assumes "unat x * 96 < 2 ^ 32" and "p \<noteq> 0"
  shows "\<exists>r. PhysicalToLogicalPixels x p = Some r \<and> unat r = unat x * 96 div unat p"
proof -
  have "unat (x * 96) = unat x * unat (96 :: 32 word)"
    using assms(1) unat_mult_lem [of x "96 :: 32 word"] by simp
  then show ?thesis using assms(2)
    by (simp add: PhysicalToLogicalPixels_def USER_DEFAULT_SCREEN_DPI_def unat_div)
qed

text \<open>
  C8 (amended). The macros compute in 32-bit unsigned arithmetic. For a positive logical
  dimension \<open>d\<close> and a positive DPI \<open>p\<close> whose product \<open>d * p\<close> fits in 32 bits, both
  conversions agree with exact integer arithmetic with truncation, and the round trip
  from logical to physical and back never exceeds \<open>d\<close> and falls short of it by at most
  \<open>1 + 94 div p\<close>, that is by at most 1 for every DPI of 95 or more.
\<close>

theorem C8_roundtrip_tolerance:
  assumes d: "0 < d" and p: "0 < p" and fits: "unat d * unat p < 2 ^ 32"
  shows "\<exists>r. PhysicalToLogicalPixels (LogicalToPhysicalPixels d p) p = Some r
           \<and> unat (LogicalToPhysicalPixels d p) = unat d * unat p div 96
           \<and> unat r = (unat d * unat p div 96) * 96 div unat p
           \<and> r \<le> d
           \<and> unat d - unat r \<le> 1 + 94 div unat p"
proof -
  have p0: "p \<noteq> 0" and up: "0 < unat p"
    using p by (simp_all add: word_greater_zero_iff unat_gt_0)
  have l: "unat (LogicalToPhysicalPixels d p) = unat d * unat p div 96"
    using fits by (rule unat_LogicalToPhysicalPixels)
  have "unat (LogicalToPhysicalPixels d p) * 96 \<le> unat d * unat p"
    unfolding l by simp
  then have "unat (LogicalToPhysicalPixels d p) * 96 < 2 ^ 32" using fits by linarith
  from unat_PhysicalToLogicalPixels [OF this p0]
  obtain r where r: "PhysicalToLogicalPixels (LogicalToPhysicalPixels d p) p = Some r"
    and ur: "unat r = unat (LogicalToPhysicalPixels d p) * 96 div unat p" by blast
  from roundtrip_nat [OF up, of "unat d"] have
    "unat r \<le> unat d" and "unat d - unat r \<le> 1 + 94 div unat p"
    unfolding ur l by simp_all
  then show ?thesis using r ur l by (auto simp: word_le_nat_alt)
qed

theorem C8_roundtrip_tolerance_witness:
  "(0 :: 32 word) < 800 \<and> (0 :: 32 word) < 144
   \<and> unat (800 :: 32 word) * unat (144 :: 32 word) < 2 ^ 32
   \<and> LogicalToPhysicalPixels 800 144 = 1200
   \<and> PhysicalToLogicalPixels (LogicalToPhysicalPixels 800 144) 144 = Some 800"
  using C8_roundtrip_tolerance [of 800 144]
  by (simp add: LogicalToPhysicalPixels_def PhysicalToLogicalPixels_def
      USER_DEFAULT_SCREEN_DPI_def)

text \<open>
  The unamended claim fails where the product wraps: 44739243 logical pixels at 96 DPI
  become 0 physical pixels, and the round trip returns 0.
\<close>

theorem C8_roundtrip_counterexample:
  "(0 :: 32 word) < 44739243 \<and> (0 :: 32 word) < 96
   \<and> LogicalToPhysicalPixels 44739243 96 = 0
   \<and> PhysicalToLogicalPixels (LogicalToPhysicalPixels 44739243 96) 96 = Some 0
   \<and> (0 :: 32 word) \<noteq> 44739243"
  by (simp add: LogicalToPhysicalPixels_def PhysicalToLogicalPixels_def
      USER_DEFAULT_SCREEN_DPI_def)


section \<open>Properties of the backbuffer allocator\<close>

lemma ResizeBackBuffer_noop:
  "BackBufferMemory window \<noteq> nullptr \<Longrightarrow> BackBufferWidth window = x
   \<Longrightarrow> BackBufferHeight window = y
   \<Longrightarrow> ResizeBackBuffer env window x y = (0, window, [])"
  by (simp add: ResizeBackBuffer_def)

lemma ResizeBackBuffer_fail:
  "\<not> (x = BackBufferWidth window \<and> y = BackBufferHeight window
        \<and> BackBufferMemory window \<noteq> nullptr)
   \<Longrightarrow> VirtualAlloc_result env (ucast x * ucast y * 4) = nullptr
   \<Longrightarrow> ResizeBackBuffer env window x y =
        (- 1,
         window\<lparr>BackBufferInfo := zero_BITMAPINFOHEADER
            \<lparr>biSize := sizeof_BITMAPINFOHEADER, biWidth := x, biHeight := - y,
             biPlanes := 1, biBitCount := 32, biCompression := BI_RGB\<rparr>\<rparr>,
         [VirtualAlloc (ucast x * ucast y * 4)])"
  by (simp add: ResizeBackBuffer_def Let_def)

lemma ResizeBackBuffer_ok:
  "\<not> (x = BackBufferWidth window \<and> y = BackBufferHeight window
        \<and> BackBufferMemory window \<noteq> nullptr)
   \<Longrightarrow> VirtualAlloc_result env (ucast x * ucast y * 4) \<noteq> nullptr
   \<Longrightarrow> ResizeBackBuffer env window x y =
        (0,
         window\<lparr>BackBufferInfo := zero_BITMAPINFOHEADER
            \<lparr>biSize := sizeof_BITMAPINFOHEADER, biWidth := x, biHeight := - y,
             biPlanes := 1, biBitCount := 32, biCompression := BI_RGB\<rparr>,
            BackBufferMemory := VirtualAlloc_result env (ucast x * ucast y * 4),
            BackBufferWidth := x, BackBufferHeight := y, BackBufferStride := x * 4\<rparr>,
         VirtualAlloc (ucast x * ucast y * 4) #
           (if BackBufferMemory window \<noteq> nullptr
            then [VirtualFree (BackBufferMemory window)] else []))"
  by (simp add: ResizeBackBuffer_def Let_def)

text \<open>
  C1. With a backbuffer in place, a resize to other dimensions whose allocation fails
  returns -1 after the one failed \<^verbatim>\<open>VirtualAlloc\<close>, and the stored base address,
  width, height and stride are those from before the call, so the framebuffer query
  answers as before. (The bitmap header, which is not part of the descriptor, has been
  rewritten for the requested size by then.)
\<close>

theorem C1_failed_resize_keeps_buffer:
  assumes existing: "BackBufferMemory window \<noteq> nullptr"
    and differs: "x \<noteq> BackBufferWidth window \<or> y \<noteq> BackBufferHeight window"
    and fails: "VirtualAlloc_result env (ucast x * ucast y * 4) = nullptr"
    and call: "ResizeBackBuffer env window x y = (code, window', calls)"
  shows "code = - 1
       \<and> calls = [VirtualAlloc (ucast x * ucast y * 4)]
       \<and> BackBufferMemory window' = BackBufferMemory window
       \<and> BackBufferWidth window' = BackBufferWidth window
       \<and> BackBufferHeight window' = BackBufferHeight window
       \<and> BackBufferStride window' = BackBufferStride window
       \<and> rtcGetFrameBuffer window' = rtcGetFrameBuffer window"
proof -
  from differs have "\<not> (x = BackBufferWidth window \<and> y = BackBufferHeight window
      \<and> BackBufferMemory window \<noteq> nullptr)"
    by auto
  from ResizeBackBuffer_fail [OF this fails] call show ?thesis
    by (auto simp: rtcGetFrameBuffer_def)
qed

theorem C1_failed_resize_keeps_buffer_witness:
  "BackBufferMemory shown_window \<noteq> nullptr
   \<and> BackBufferWidth shown_window = 800 \<and> BackBufferHeight shown_window = 600
   \<and> VirtualAlloc_result (desktop_env no_memory) (ucast (1024 :: 32 word) * ucast (768 :: 32 word) * 4) = nullptr
   \<and> fst (ResizeBackBuffer (desktop_env no_memory) shown_window 1024 768) = - 1
   \<and> rtcGetFrameBuffer (fst (snd (ResizeBackBuffer (desktop_env no_memory) shown_window 1024 768)))
       = Some \<lparr>Base = 0x20000, Width = 800, Height = 600, Stride = 3200\<rparr>"
proof -
  obtain code window' calls where
    call: "ResizeBackBuffer (desktop_env no_memory) shown_window 1024 768 = (code, window', calls)"
    by (cases "ResizeBackBuffer (desktop_env no_memory) shown_window 1024 768") blast
  have existing: "BackBufferMemory shown_window \<noteq> nullptr"
    by (simp add: shown_window_def nullptr_def)
  have differs: "1024 \<noteq> BackBufferWidth shown_window \<or> 768 \<noteq> BackBufferHeight shown_window"
    by (simp add: shown_window_def)
  have fails: "VirtualAlloc_result (desktop_env no_memory)
      (ucast (1024 :: 32 word) * ucast (768 :: 32 word) * 4) = nullptr"
    by (simp add: desktop_env_def no_memory_def block_at_def)
  have before: "rtcGetFrameBuffer shown_window
      = Some \<lparr>Base = 0x20000, Width = 800, Height = 600, Stride = 3200\<rparr>"
    by (simp add: rtcGetFrameBuffer_def shown_window_def nullptr_def)
  have dims: "BackBufferWidth shown_window = 800 \<and> BackBufferHeight shown_window = 600"
    by (simp add: shown_window_def)
  from C1_failed_resize_keeps_buffer [OF existing differs fails call] existing dims fails
    before call
  show ?thesis by simp
qed

text \<open>
  C2. A resize to the dimensions of the buffer in place returns 0, makes no call and
  leaves the whole window state as it is; and after any resize that returned 0, a
  second resize to the same dimensions is such a call, whatever the allocator would
  answer.
\<close>

theorem C2_resize_idempotent:
  "(BackBufferMemory window \<noteq> nullptr \<and> BackBufferWidth window = x
      \<and> BackBufferHeight window = y
      \<longrightarrow> ResizeBackBuffer env window x y = (0, window, []))
   \<and> (ResizeBackBuffer env window x y = (0, window1, calls1)
      \<longrightarrow> BackBufferMemory window1 \<noteq> nullptr
          \<and> ResizeBackBuffer env' window1 x y = (0, window1, []))"
proof (intro conjI impI)
  assume "BackBufferMemory window \<noteq> nullptr \<and> BackBufferWidth window = x
      \<and> BackBufferHeight window = y"
  then show "ResizeBackBuffer env window x y = (0, window, [])"
    by (simp add: ResizeBackBuffer_noop)
next
  assume first: "ResizeBackBuffer env window x y = (0, window1, calls1)"
  have fitted: "BackBufferMemory window1 \<noteq> nullptr \<and> BackBufferWidth window1 = x
      \<and> BackBufferHeight window1 = y"
  proof (cases "x = BackBufferWidth window \<and> y = BackBufferHeight window
      \<and> BackBufferMemory window \<noteq> nullptr")
    case True
    then have "ResizeBackBuffer env window x y = (0, window, [])"
      by (simp add: ResizeBackBuffer_noop)
    with first have "window1 = window" by simp
    with True show ?thesis by simp
  next
    case False
    show ?thesis
    proof (cases "VirtualAlloc_result env (ucast x * ucast y * 4) = nullptr")
      case True
      from ResizeBackBuffer_fail [OF False True] first show ?thesis by simp
    next
      case allocated: False
      from ResizeBackBuffer_ok [OF False allocated] first
      have "window1 = window\<lparr>BackBufferInfo := zero_BITMAPINFOHEADER
            \<lparr>biSize := sizeof_BITMAPINFOHEADER, biWidth := x, biHeight := - y,
             biPlanes := 1, biBitCount := 32, biCompression := BI_RGB\<rparr>,
            BackBufferMemory := VirtualAlloc_result env (ucast x * ucast y * 4),
            BackBufferWidth := x, BackBufferHeight := y, BackBufferStride := x * 4\<rparr>"
        by simp
      with allocated show ?thesis by simp
    qed
  qed
  then show "BackBufferMemory window1 \<noteq> nullptr" by simp
  from fitted show "ResizeBackBuffer env' window1 x y = (0, window1, [])"
    by (simp add: ResizeBackBuffer_noop)
qed

theorem C2_resize_idempotent_witness:
  "ResizeBackBuffer (desktop_env (block_at 0x30000)) shown_window 800 600 = (0, shown_window, [])
   \<and> fst (ResizeBackBuffer (desktop_env (block_at 0x30000)) shown_window 1024 768) = 0
   \<and> snd (snd (ResizeBackBuffer (desktop_env (block_at 0x30000)) shown_window 1024 768))
       = [VirtualAlloc 3145728, VirtualFree 0x20000]
   \<and> snd (snd (ResizeBackBuffer (desktop_env no_memory)
         (fst (snd (ResizeBackBuffer (desktop_env (block_at 0x30000)) shown_window 1024 768)))
         1024 768)) = []"
proof -
  let ?env = "desktop_env (block_at 0x30000)"
  obtain window1 calls1 where
    first: "ResizeBackBuffer ?env shown_window 1024 768 = (0, window1, calls1)"
    and calls1: "calls1 = [VirtualAlloc 3145728, VirtualFree 0x20000]"
    by (simp add: ResizeBackBuffer_def Let_def shown_window_def desktop_env_def no_memory_def block_at_def nullptr_def)
  have fitting: "BackBufferMemory shown_window \<noteq> nullptr \<and> BackBufferWidth shown_window = 800
      \<and> BackBufferHeight shown_window = 600"
    by (simp add: shown_window_def nullptr_def)
  from C2_resize_idempotent [of shown_window 800 600 ?env] fitting
  have same: "ResizeBackBuffer ?env shown_window 800 600 = (0, shown_window, [])" by blast
  from C2_resize_idempotent [of shown_window 1024 768 ?env window1 calls1
      "desktop_env no_memory"] first
  have again: "ResizeBackBuffer (desktop_env no_memory) window1 1024 768 = (0, window1, [])"
    by blast
  from same first calls1 again show ?thesis by simp
qed

lemma ResizeBackBuffer_cases:
  obtains (noop) "ResizeBackBuffer env window x y = (0, window, [])"
      "BackBufferMemory window \<noteq> nullptr" "BackBufferWidth window = x" "BackBufferHeight window = y"
  | (failed) "ResizeBackBuffer env window x y =
        (- 1,
         window\<lparr>BackBufferInfo := zero_BITMAPINFOHEADER
            \<lparr>biSize := sizeof_BITMAPINFOHEADER, biWidth := x, biHeight := - y,
             biPlanes := 1, biBitCount := 32, biCompression := BI_RGB\<rparr>\<rparr>,
         [VirtualAlloc (ucast x * ucast y * 4)])"
      "VirtualAlloc_result env (ucast x * ucast y * 4) = nullptr"
      "\<not> (x = BackBufferWidth window \<and> y = BackBufferHeight window \<and> BackBufferMemory window \<noteq> nullptr)"
  | (installed) "ResizeBackBuffer env window x y =
        (0,
         window\<lparr>BackBufferInfo := zero_BITMAPINFOHEADER
            \<lparr>biSize := sizeof_BITMAPINFOHEADER, biWidth := x, biHeight := - y,
             biPlanes := 1, biBitCount := 32, biCompression := BI_RGB\<rparr>,
            BackBufferMemory := VirtualAlloc_result env (ucast x * ucast y * 4),
            BackBufferWidth := x, BackBufferHeight := y, BackBufferStride := x * 4\<rparr>,
         VirtualAlloc (ucast x * ucast y * 4) #
           (if BackBufferMemory window \<noteq> nullptr
            then [VirtualFree (BackBufferMemory window)] else []))"
      "VirtualAlloc_result env (ucast x * ucast y * 4) \<noteq> nullptr"
      "\<not> (x = BackBufferWidth window \<and> y = BackBufferHeight window \<and> BackBufferMemory window \<noteq> nullptr)"
proof (cases "x = BackBufferWidth window \<and> y = BackBufferHeight window
      \<and> BackBufferMemory window \<noteq> nullptr")
  case True
  then have "ResizeBackBuffer env window x y = (0, window, [])"
    by (simp add: ResizeBackBuffer_noop)
  with True show ?thesis by (intro noop) simp_all
next
  case False
  show ?thesis
  proof (cases "VirtualAlloc_result env (ucast x * ucast y * 4) = nullptr")
    case True
    from ResizeBackBuffer_fail [OF False True] True False show ?thesis by (rule failed)
  next
    case allocated: False
    from ResizeBackBuffer_ok [OF False allocated] allocated False show ?thesis by (rule installed)
  qed
qed

lemma ResizeBackBuffer_ignores_other_fields:
  assumes "BackBufferMemory w2 = BackBufferMemory w1" "BackBufferWidth w2 = BackBufferWidth w1"
    "BackBufferHeight w2 = BackBufferHeight w1" "BackBufferStride w2 = BackBufferStride w1"
  shows "fst (ResizeBackBuffer env w2 x y) = fst (ResizeBackBuffer env w1 x y)"
    and "snd (snd (ResizeBackBuffer env w2 x y)) = snd (snd (ResizeBackBuffer env w1 x y))"
    and "BackBufferMemory (fst (snd (ResizeBackBuffer env w2 x y)))
         = BackBufferMemory (fst (snd (ResizeBackBuffer env w1 x y)))"
    and "BackBufferWidth (fst (snd (ResizeBackBuffer env w2 x y)))
         = BackBufferWidth (fst (snd (ResizeBackBuffer env w1 x y)))"
    and "BackBufferHeight (fst (snd (ResizeBackBuffer env w2 x y)))
         = BackBufferHeight (fst (snd (ResizeBackBuffer env w1 x y)))"
    and "BackBufferStride (fst (snd (ResizeBackBuffer env w2 x y)))
         = BackBufferStride (fst (snd (ResizeBackBuffer env w1 x y)))"
  using assms by (simp_all add: ResizeBackBuffer_def Let_def)

section \<open>What every handler preserves\<close>

lemma flag_stays_set:
  fixes a b d :: "32 word"
  shows "a AND d \<noteq> 0 \<Longrightarrow> (a OR b) AND d \<noteq> 0"
  by (auto simp: bit_eq_iff bit_and_iff bit_or_iff)


lemma ResizeBackBuffer_state_frame:
  "Win32Handle (fst (snd (ResizeBackBuffer env window x y))) = Win32Handle window"
  "StatusFlags (fst (snd (ResizeBackBuffer env window x y))) = StatusFlags window"
  "EventFlags (fst (snd (ResizeBackBuffer env window x y))) = EventFlags window"
  "OutputDpiX (fst (snd (ResizeBackBuffer env window x y))) = OutputDpiX window"
  "OutputDpiY (fst (snd (ResizeBackBuffer env window x y))) = OutputDpiY window"
  "PositionX (fst (snd (ResizeBackBuffer env window x y))) = PositionX window"
  "PositionY (fst (snd (ResizeBackBuffer env window x y))) = PositionY window"
  "WindowSizeX (fst (snd (ResizeBackBuffer env window x y))) = WindowSizeX window"
  "WindowSizeY (fst (snd (ResizeBackBuffer env window x y))) = WindowSizeY window"
  "ClientSizeX (fst (snd (ResizeBackBuffer env window x y))) = ClientSizeX window"
  "ClientSizeY (fst (snd (ResizeBackBuffer env window x y))) = ClientSizeY window"
  "RestoreRect (fst (snd (ResizeBackBuffer env window x y))) = RestoreRect window"
  "RestoreStyle (fst (snd (ResizeBackBuffer env window x y))) = RestoreStyle window"
  "RestoreStyleEx (fst (snd (ResizeBackBuffer env window x y))) = RestoreStyleEx window"
  "Win32Api (fst (snd (ResizeBackBuffer env window x y))) = Win32Api window"
  by (simp_all add: ResizeBackBuffer_def Let_def)

















lemma call_GetDpiForMonitor_resolves:
  assumes "GetDpiForMonitor winapi = Shcore \<and> monitor_dpi env = Some (dpi_x, dpi_y) \<and> queries = []
      \<or> GetDpiForMonitor winapi = Shcore \<and> monitor_dpi env = None
          \<and> dpi_x = USER_DEFAULT_SCREEN_DPI \<and> dpi_y = USER_DEFAULT_SCREEN_DPI \<and> queries = []
      \<or> GetDpiForMonitor winapi = Stub \<and> device_caps env = (dpi_x, dpi_y)
          \<and> queries = [GetDC nullptr, ReleaseDC nullptr]"
  shows "call_GetDpiForMonitor winapi env = ((dpi_x, dpi_y), queries)"
  using assms by (auto simp: call_GetDpiForMonitor_def GetDpiForMonitor_Stub_def)








section \<open>Properties of the presentation loop\<close>


lemma iterations_add_iteration:
  "iterations (add_iteration it r) = it # iterations r"
  by (cases r) simp_all










section \<open>Properties of the size handler\<close>

lemma visible_bit_only:
  fixes s v :: "32 word"
  shows "(s AND NOT v) AND NOT v = s AND NOT v" and "(s OR v) AND NOT v = s AND NOT v"
  by (auto simp: bit_eq_iff bit_and_iff bit_or_iff bit_not_iff)

text \<open>
  C9 (amended). The DPI is resolved first: the answer of the \<^verbatim>\<open>Shcore.dll\<close> entry
  point, the baseline when that fails, or on the stub path the device capabilities read
  between \<^verbatim>\<open>GetDC(NULL)\<close> and \<^verbatim>\<open>ReleaseDC\<close>. When neither value is zero, a size
  notification whose code is \<^verbatim>\<open>SIZE_MINIMIZED\<close> or \<^verbatim>\<open>SIZE_MAXHIDE\<close>, or whose
  dimensions convert to the stored logical client size, makes no call beyond that
  query, so no resize is attempted whatever dimensions it carries, and changes nothing
  but the Visible status bit, which is cleared in the first case and set in the second:
  the event flags, position, sizes, DPI and every backbuffer field are as before.
\<close>

theorem C9_size_without_resize:
  assumes resolved:
      "GetDpiForMonitor (Win32Api window) = Shcore \<and> monitor_dpi env = Some (dpi_x, dpi_y)
         \<and> queries = []
       \<or> GetDpiForMonitor (Win32Api window) = Shcore \<and> monitor_dpi env = None
         \<and> dpi_x = USER_DEFAULT_SCREEN_DPI \<and> dpi_y = USER_DEFAULT_SCREEN_DPI \<and> queries = []
       \<or> GetDpiForMonitor (Win32Api window) = Stub \<and> device_caps env = (dpi_x, dpi_y)
         \<and> queries = [GetDC nullptr, ReleaseDC nullptr]"
    and nonzero: "dpi_x \<noteq> 0" "dpi_y \<noteq> 0"
    and quiet: "wparam = SIZE_MINIMIZED \<or> wparam = SIZE_MAXHIDE
        \<or> (PhysicalToLogicalPixels (ucast (LOWORD lparam)) dpi_x = Some (ClientSizeX window)
            \<and> PhysicalToLogicalPixels (ucast (HIWORD lparam)) dpi_y = Some (ClientSizeY window))"
  shows "\<exists>window'.
           WSI_WndProc_WM_SIZE env window wparam lparam = Some (0, window', queries)
         \<and> (\<forall>n. VirtualAlloc n \<notin> set queries) \<and> (\<forall>p. VirtualFree p \<notin> set queries)
         \<and> window' = window\<lparr>StatusFlags :=
               (if wparam = SIZE_MINIMIZED \<or> wparam = SIZE_MAXHIDE
                then StatusFlags window AND NOT WSI_WINDOW_STATUS_FLAG_VISIBLE
                else StatusFlags window OR WSI_WINDOW_STATUS_FLAG_VISIBLE)\<rparr>
         \<and> StatusFlags window' AND NOT WSI_WINDOW_STATUS_FLAG_VISIBLE
             = StatusFlags window AND NOT WSI_WINDOW_STATUS_FLAG_VISIBLE
         \<and> EventFlags window' = EventFlags window
         \<and> PositionX window' = PositionX window \<and> PositionY window' = PositionY window
         \<and> WindowSizeX window' = WindowSizeX window \<and> WindowSizeY window' = WindowSizeY window
         \<and> ClientSizeX window' = ClientSizeX window \<and> ClientSizeY window' = ClientSizeY window
         \<and> OutputDpiX window' = OutputDpiX window \<and> OutputDpiY window' = OutputDpiY window
         \<and> BackBufferMemory window' = BackBufferMemory window
         \<and> BackBufferWidth window' = BackBufferWidth window
         \<and> BackBufferHeight window' = BackBufferHeight window
         \<and> BackBufferStride window' = BackBufferStride window
         \<and> BackBufferInfo window' = BackBufferInfo window"
proof -
  note dpi = call_GetDpiForMonitor_resolves [OF resolved]
  have "WSI_WndProc_WM_SIZE env window wparam lparam =
      Some (0, window\<lparr>StatusFlags :=
               (if wparam = SIZE_MINIMIZED \<or> wparam = SIZE_MAXHIDE
                then StatusFlags window AND NOT WSI_WINDOW_STATUS_FLAG_VISIBLE
                else StatusFlags window OR WSI_WINDOW_STATUS_FLAG_VISIBLE)\<rparr>, queries)"
    using quiet nonzero
    by (auto simp: WSI_WndProc_WM_SIZE_def dpi Let_def PhysicalToLogicalPixels_def)
  moreover have "(\<forall>n. VirtualAlloc n \<notin> set queries) \<and> (\<forall>p. VirtualFree p \<notin> set queries)"
    using resolved by auto
  ultimately show ?thesis by (simp add: visible_bit_only)
qed


theorem C9_size_without_resize_witness:
  "WSI_WndProc_WM_SIZE (desktop_env (block_at 0x30000)) shown_window SIZE_MINIMIZED 0
     = Some (0, shown_window\<lparr>StatusFlags := 3\<rparr>, [])
   \<and> WSI_WndProc_WM_SIZE (desktop_env (block_at 0x30000)) shown_window SIZE_MINIMIZED 0x03000400
     = Some (0, shown_window\<lparr>StatusFlags := 3\<rparr>, [])
   \<and> WSI_WndProc_WM_SIZE (desktop_env (block_at 0x30000)) shown_window SIZE_RESTORED 0x02580320
     = Some (0, shown_window\<lparr>StatusFlags := 7\<rparr>, [])
   \<and> WSI_WndProc_WM_SIZE (legacy_env (block_at 0x30000)) (shown_window\<lparr>Win32Api := stub_api\<rparr>)
         SIZE_MINIMIZED 0x03000400
     = Some (0, shown_window\<lparr>Win32Api := stub_api, StatusFlags := 3\<rparr>,
             [GetDC nullptr, ReleaseDC nullptr])"
proof -
  let ?env = "desktop_env (block_at 0x30000)"
  have resolved: "GetDpiForMonitor (Win32Api shown_window) = Shcore
        \<and> monitor_dpi ?env = Some (96, 96) \<and> [] = ([] :: win32_call list)
      \<or> GetDpiForMonitor (Win32Api shown_window) = Shcore \<and> monitor_dpi ?env = None
        \<and> 96 = USER_DEFAULT_SCREEN_DPI \<and> 96 = USER_DEFAULT_SCREEN_DPI
        \<and> [] = ([] :: win32_call list)
      \<or> GetDpiForMonitor (Win32Api shown_window) = Stub \<and> device_caps ?env = (96, 96)
        \<and> [] = [GetDC nullptr, ReleaseDC nullptr]"
    by (simp add: shown_window_def shcore_api_def desktop_env_def)
  let ?legacy = "legacy_env (block_at 0x30000)"
  let ?window = "shown_window\<lparr>Win32Api := stub_api\<rparr>"
  have fallback: "GetDpiForMonitor (Win32Api ?window) = Shcore
        \<and> monitor_dpi ?legacy = Some (120, 120)
        \<and> [GetDC nullptr, ReleaseDC nullptr] = []
      \<or> GetDpiForMonitor (Win32Api ?window) = Shcore \<and> monitor_dpi ?legacy = None
        \<and> 120 = USER_DEFAULT_SCREEN_DPI \<and> 120 = USER_DEFAULT_SCREEN_DPI
        \<and> [GetDC nullptr, ReleaseDC nullptr] = []
      \<or> GetDpiForMonitor (Win32Api ?window) = Stub \<and> device_caps ?legacy = (120, 120)
        \<and> [GetDC nullptr, ReleaseDC nullptr] = [GetDC nullptr, ReleaseDC nullptr]"
    by (simp add: stub_api_def wWinMain_resolve_def legacy_env_def)
  have nonzero: "(96 :: 32 word) \<noteq> 0" "(120 :: 32 word) \<noteq> 0" by simp_all
  have status: "StatusFlags shown_window AND NOT WSI_WINDOW_STATUS_FLAG_VISIBLE = 3"
    "StatusFlags shown_window OR WSI_WINDOW_STATUS_FLAG_VISIBLE = 7"
    by (simp_all add: shown_window_def WSI_WINDOW_STATUS_FLAG_VISIBLE_def)
  have same: "PhysicalToLogicalPixels (ucast (LOWORD 0x02580320)) 96 = Some (ClientSizeX shown_window)
      \<and> PhysicalToLogicalPixels (ucast (HIWORD 0x02580320)) 96 = Some (ClientSizeY shown_window)"
    by (simp add: PhysicalToLogicalPixels_def LOWORD_def HIWORD_def shown_window_def
        USER_DEFAULT_SCREEN_DPI_def)
  from C9_size_without_resize [where wparam = SIZE_MINIMIZED and lparam = 0,
      OF resolved nonzero(1) nonzero(1)]
  have a: "WSI_WndProc_WM_SIZE ?env shown_window SIZE_MINIMIZED 0
     = Some (0, shown_window\<lparr>StatusFlags := 3\<rparr>, [])"
    using status by simp
  from C9_size_without_resize [where wparam = SIZE_MINIMIZED and lparam = "0x03000400",
      OF resolved nonzero(1) nonzero(1)]
  have b: "WSI_WndProc_WM_SIZE ?env shown_window SIZE_MINIMIZED 0x03000400
     = Some (0, shown_window\<lparr>StatusFlags := 3\<rparr>, [])"
    using status by simp
  from C9_size_without_resize [where wparam = SIZE_RESTORED and lparam = "0x02580320",
      OF resolved nonzero(1) nonzero(1)] same
  have c: "WSI_WndProc_WM_SIZE ?env shown_window SIZE_RESTORED 0x02580320
     = Some (0, shown_window\<lparr>StatusFlags := 7\<rparr>, [])"
    using status by (simp add: SIZE_RESTORED_def SIZE_MINIMIZED_def SIZE_MAXHIDE_def)
  from C9_size_without_resize [where wparam = SIZE_MINIMIZED and lparam = "0x03000400",
      OF fallback nonzero(2) nonzero(2)]
  have d: "WSI_WndProc_WM_SIZE ?legacy ?window SIZE_MINIMIZED 0x03000400
     = Some (0, shown_window\<lparr>Win32Api := stub_api, StatusFlags := 3\<rparr>,
             [GetDC nullptr, ReleaseDC nullptr])"
    using status by simp
  from a b c d show ?thesis by simp
qed

text \<open>
  The unamended claim is for every window state and says nothing of the DPI. On the stub
  path with a screen whose device context reports a pixel density of 0, the handler
  divides by zero while converting the carried dimensions, before it looks at the code
  of the notification.
\<close>

theorem C9_zero_dpi_counterexample:
  "WSI_WndProc_WM_SIZE (blank_env no_memory) (shown_window\<lparr>Win32Api := stub_api\<rparr>)
       SIZE_MINIMIZED 0 = None
   \<and> call_GetDpiForMonitor stub_api (blank_env no_memory)
       = ((0, 0), [GetDC nullptr, ReleaseDC nullptr])
   \<and> PhysicalToLogicalPixels 0 0 = None"
  by (simp add: WSI_WndProc_WM_SIZE_def Let_def call_GetDpiForMonitor_def
      GetDpiForMonitor_Stub_def stub_api_def wWinMain_resolve_def blank_env_def
      PhysicalToLogicalPixels_def LOWORD_def HIWORD_def)






section \<open>Properties of the fullscreen toggle\<close>

lemma fullscreen_bit_roundtrip:
  fixes s f :: "32 word"
  assumes "s AND f = 0"
  shows "(s OR f) AND NOT f = s"
proof -
  have "\<not> (bit s n \<and> bit f n)" for n
    using assms by (metis bit_and_iff bit_0_eq bot_apply bot_bool_def)
  then show ?thesis
    by (auto simp: bit_eq_iff bit_and_iff bit_or_iff bit_not_iff dest: bit_imp_possible_bit)
qed

text \<open>
  C7. For a window whose Fullscreen status bit is clear, the Alt+Enter command, after
  its DPI query, whose answer it does not use, stores
  the rectangle, style and extended style the platform reports in the restore fields,
  asks for the \<^verbatim>\<open>WS_POPUP\<close> style on the monitor's rectangle and sets the bit. The same
  command on the resulting state asks the platform for exactly the stored style and
  extended style and for the stored position with the stored rectangle's width and
  height, which give back its right and bottom edges, and clears the bit: the status
  flags are those from before the first command. What the window manager makes of the
  requests is outside the program.
\<close>

theorem C7_fullscreen_roundtrip:
  assumes gesture: "wparam AND 0xFFF0 = SC_KEYMENU" "lparam = VK_RETURN"
    and windowed: "StatusFlags window AND WSI_WINDOW_STATUS_FLAG_FULLSCREEN = 0"
    and rect: "r = window_rect env1"
    and monitor: "mon = monitor_rect env1"
  shows "\<exists>full again.
           WSI_WndProc_WM_SYSCOMMAND env1 window wparam lparam =
             Some (0, full,
                   snd (call_GetDpiForMonitor (Win32Api window) env1) @
                   [SetWindowLong GWL_STYLE WS_POPUP,
                    SetWindowPos (left mon) (top' mon) (right mon - left mon)
                      (bottom mon - top' mon) fullscreen_swp_flags,
                    ShowWindow SW_MAXIMIZE])
         \<and> RestoreRect full = r
         \<and> RestoreStyle full = window_style env1
         \<and> RestoreStyleEx full = window_style_ex env1
         \<and> StatusFlags full AND WSI_WINDOW_STATUS_FLAG_FULLSCREEN \<noteq> 0
         \<and> WSI_WndProc_WM_SYSCOMMAND env2 full wparam lparam =
             Some (0, again,
                   snd (call_GetDpiForMonitor (Win32Api window) env2) @
                   [SetWindowLong GWL_STYLE (window_style env1),
                    SetWindowLong GWL_EXSTYLE (window_style_ex env1),
                    SetWindowPos (left r) (top' r) (right r - left r) (bottom r - top' r)
                      fullscreen_swp_flags,
                    ShowWindow SW_NORMAL])
         \<and> left r + (right r - left r) = right r
         \<and> top' r + (bottom r - top' r) = bottom r
         \<and> StatusFlags again AND WSI_WINDOW_STATUS_FLAG_FULLSCREEN = 0
         \<and> StatusFlags again = StatusFlags window
         \<and> again = window\<lparr>RestoreRect := r, RestoreStyle := window_style env1,
                           RestoreStyleEx := window_style_ex env1\<rparr>
         \<and> set (snd (call_GetDpiForMonitor (Win32Api window) env1))
             \<subseteq> {GetDC nullptr, ReleaseDC nullptr}
         \<and> set (snd (call_GetDpiForMonitor (Win32Api window) env2))
             \<subseteq> {GetDC nullptr, ReleaseDC nullptr}"
proof -
  have queries: "set (snd (call_GetDpiForMonitor (Win32Api window) env))
      \<subseteq> {GetDC nullptr, ReleaseDC nullptr}" for env
    by (simp add: call_GetDpiForMonitor_def GetDpiForMonitor_Stub_def
        split: entry_point.splits option.splits)
  define full where "full = window
      \<lparr>RestoreRect := r, RestoreStyle := window_style env1,
       RestoreStyleEx := window_style_ex env1,
       StatusFlags := StatusFlags window OR WSI_WINDOW_STATUS_FLAG_FULLSCREEN\<rparr>"
  define again where "again = full
      \<lparr>StatusFlags := StatusFlags full AND NOT WSI_WINDOW_STATUS_FLAG_FULLSCREEN\<rparr>"
  have entered: "StatusFlags full AND WSI_WINDOW_STATUS_FLAG_FULLSCREEN \<noteq> 0"
  proof -
    have "(WSI_WINDOW_STATUS_FLAG_FULLSCREEN OR StatusFlags window)
        AND WSI_WINDOW_STATUS_FLAG_FULLSCREEN \<noteq> 0"
      by (rule flag_stays_set) (simp add: WSI_WINDOW_STATUS_FLAG_FULLSCREEN_def)
    then show ?thesis by (simp add: full_def or.commute)
  qed
  have enter: "WSI_WndProc_WM_SYSCOMMAND env1 window wparam lparam =
      Some (0, full,
            snd (call_GetDpiForMonitor (Win32Api window) env1) @
            [SetWindowLong GWL_STYLE WS_POPUP,
             SetWindowPos (left mon) (top' mon) (right mon - left mon)
               (bottom mon - top' mon) fullscreen_swp_flags,
             ShowWindow SW_MAXIMIZE])"
    using gesture windowed
    by (simp add: WSI_WndProc_WM_SYSCOMMAND_def Let_def case_prod_beta full_def rect monitor)
  have leave: "WSI_WndProc_WM_SYSCOMMAND env2 full wparam lparam =
      Some (0, again,
            snd (call_GetDpiForMonitor (Win32Api window) env2) @
            [SetWindowLong GWL_STYLE (window_style env1),
             SetWindowLong GWL_EXSTYLE (window_style_ex env1),
             SetWindowPos (left r) (top' r) (right r - left r) (bottom r - top' r)
               fullscreen_swp_flags,
             ShowWindow SW_NORMAL])"
    using gesture entered
    by (simp add: WSI_WndProc_WM_SYSCOMMAND_def Let_def case_prod_beta again_def)
      (simp add: full_def)
  have status: "StatusFlags again = StatusFlags window"
    using fullscreen_bit_roundtrip [OF windowed] by (simp add: again_def full_def)
  have restored: "again = window\<lparr>RestoreRect := r, RestoreStyle := window_style env1,
      RestoreStyleEx := window_style_ex env1\<rparr>"
    using status by (simp add: again_def full_def)
  show ?thesis
    apply (rule exI [of _ full])
    apply (rule exI [of _ again])
    using enter leave entered status restored windowed queries
    by (simp add: full_def)
qed


theorem C7_fullscreen_roundtrip_witness:
  "WSI_WndProc_WM_SYSCOMMAND (desktop_env no_memory) shown_window 0xF100 0x0D =
     Some (0,
           shown_window\<lparr>RestoreRect := \<lparr>left = 560, top' = 220, right = 1376, bottom = 859\<rparr>,
                         StatusFlags := 15\<rparr>,
           [SetWindowLong GWL_STYLE WS_POPUP,
            SetWindowPos 0 0 1920 1080 fullscreen_swp_flags,
            ShowWindow SW_MAXIMIZE])
   \<and> WSI_WndProc_WM_SYSCOMMAND (desktop_env (block_at 0x30000))
       (shown_window\<lparr>RestoreRect := \<lparr>left = 560, top' = 220, right = 1376, bottom = 859\<rparr>,
                     StatusFlags := 15\<rparr>) 0xF100 0x0D =
     Some (0,
           shown_window\<lparr>RestoreRect := \<lparr>left = 560, top' = 220, right = 1376, bottom = 859\<rparr>\<rparr>,
           [SetWindowLong GWL_STYLE 0x06CF0000,
            SetWindowLong GWL_EXSTYLE 0,
            SetWindowPos 560 220 816 639 fullscreen_swp_flags,
            ShowWindow SW_NORMAL])"
proof -
  have gesture: "(0xF100 :: 64 word) AND 0xFFF0 = SC_KEYMENU" "(0x0D :: 64 word) = VK_RETURN"
    by (simp_all add: SC_KEYMENU_def VK_RETURN_def)
  have windowed: "StatusFlags shown_window AND WSI_WINDOW_STATUS_FLAG_FULLSCREEN = 0"
    by (simp add: shown_window_def WSI_WINDOW_STATUS_FLAG_FULLSCREEN_def)
  have rect: "\<lparr>left = 560, top' = 220, right = 1376, bottom = 859\<rparr>
      = window_rect (desktop_env no_memory)"
    and monitor: "\<lparr>left = 0, top' = 0, right = 1920, bottom = 1080\<rparr>
      = monitor_rect (desktop_env no_memory)"
    by (simp_all add: desktop_env_def)
  have style: "window_style (desktop_env no_memory) = 0x06CF0000"
    "window_style_ex (desktop_env no_memory) = 0"
    by (simp_all add: desktop_env_def)
  have restore: "RestoreStyle shown_window = 0x06CF0000" "RestoreStyleEx shown_window = 0"
    "StatusFlags shown_window = 7"
    by (simp_all add: shown_window_def)
  have queries: "snd (call_GetDpiForMonitor (Win32Api shown_window) env) = []" for env
    by (simp add: call_GetDpiForMonitor_def shown_window_def shcore_api_def
        split: option.splits)
  from C7_fullscreen_roundtrip [OF gesture windowed rect monitor,
      of "desktop_env (block_at 0x30000)"]
  obtain full again where
    enter: "WSI_WndProc_WM_SYSCOMMAND (desktop_env no_memory) shown_window 0xF100 0x0D =
       Some (0, full,
             [SetWindowLong GWL_STYLE WS_POPUP,
              SetWindowPos 0 0 1920 1080 fullscreen_swp_flags,
              ShowWindow SW_MAXIMIZE])"
    and leave: "WSI_WndProc_WM_SYSCOMMAND (desktop_env (block_at 0x30000)) full 0xF100 0x0D =
       Some (0, again,
             [SetWindowLong GWL_STYLE 0x06CF0000,
              SetWindowLong GWL_EXSTYLE 0,
              SetWindowPos 560 220 816 639 fullscreen_swp_flags,
              ShowWindow SW_NORMAL])"
    and again: "again = shown_window
        \<lparr>RestoreRect := \<lparr>left = 560, top' = 220, right = 1376, bottom = 859\<rparr>,
         RestoreStyle := 0x06CF0000, RestoreStyleEx := 0\<rparr>"
    by (auto simp: style queries)
  have full: "full = shown_window
      \<lparr>RestoreRect := \<lparr>left = 560, top' = 220, right = 1376, bottom = 859\<rparr>, StatusFlags := 15\<rparr>"
    using enter
    by (simp add: WSI_WndProc_WM_SYSCOMMAND_def Let_def case_prod_beta shown_window_def
        desktop_env_def SC_KEYMENU_def VK_RETURN_def WSI_WINDOW_STATUS_FLAG_FULLSCREEN_def)
  have "again = shown_window
      \<lparr>RestoreRect := \<lparr>left = 560, top' = 220, right = 1376, bottom = 859\<rparr>\<rparr>"
    unfolding again by (simp add: shown_window_def)
  with enter leave full show ?thesis by simp
qed

section \<open>Properties of the create handler\<close>

text \<open>
  C6 (amended). The create handler resolves the DPI through the dispatch table: the
  answer of the \<^verbatim>\<open>Shcore.dll\<close> entry point for the hosting monitor, the baseline DPI
  when that call fails, or on the stub path the device capabilities of the screen, read
  between \<^verbatim>\<open>GetDC(NULL)\<close> and \<^verbatim>\<open>ReleaseDC\<close>. When neither resolved value is zero, it
  converts the stored logical client size to physical pixels at that DPI, resizes the
  outer window to the decorated rectangle of that size, sets the status flags to Created
  and the event flags to Created, SizeChanged and PositionChanged, stores the DPI and
  the logical window size, and resizes the backbuffer to the physical size: with no
  buffer in place it requests width * height * 4 bytes and, when the request is
  granted, installs the block with that width and height and a stride of four times the
  width. For 800 by 600 logical pixels at 96 DPI the physical size is 800 by 600, the
  request is for 800 * 600 * 4 bytes and the stride is 3200.
\<close>

theorem C6_create_allocates:
  assumes resolved:
      "GetDpiForMonitor (Win32Api window) = Shcore \<and> monitor_dpi env = Some (dpi_x, dpi_y)
         \<and> queries = []
       \<or> GetDpiForMonitor (Win32Api window) = Shcore \<and> monitor_dpi env = None
         \<and> dpi_x = USER_DEFAULT_SCREEN_DPI \<and> dpi_y = USER_DEFAULT_SCREEN_DPI \<and> queries = []
       \<or> GetDpiForMonitor (Win32Api window) = Stub \<and> device_caps env = (dpi_x, dpi_y)
         \<and> queries = [GetDC nullptr, ReleaseDC nullptr]"
    and nonzero: "dpi_x \<noteq> 0" "dpi_y \<noteq> 0"
    and phys: "phys_x = LogicalToPhysicalPixels (ClientSizeX window) dpi_x"
      "phys_y = LogicalToPhysicalPixels (ClientSizeY window) dpi_y"
    and outer: "rc = AdjustWindowRectEx env
        \<lparr>left = 0, top' = 0, right = phys_x, bottom = phys_y\<rparr>
        (window_style env) (window_style_ex env)"
  shows "\<exists>window' calls.
           WSI_WndProc_WM_CREATE env window wparam lparam =
             Some (0, window',
                   queries @
                   SetWindowPos 0 0 (right rc - left rc) (bottom rc - top' rc)
                     (SWP_NOACTIVATE OR SWP_NOMOVE OR SWP_NOZORDER) # calls)
         \<and> StatusFlags window' = WSI_WINDOW_STATUS_FLAG_CREATED
         \<and> EventFlags window' =
             (WSI_WINDOW_EVENT_FLAG_CREATED OR WSI_WINDOW_EVENT_FLAG_SIZE_CHANGED)
               OR WSI_WINDOW_EVENT_FLAG_POSITION_CHANGED
         \<and> OutputDpiX window' = dpi_x \<and> OutputDpiY window' = dpi_y
         \<and> PhysicalToLogicalPixels (right rc - left rc) dpi_x = Some (WindowSizeX window')
         \<and> PhysicalToLogicalPixels (bottom rc - top' rc) dpi_y = Some (WindowSizeY window')
         \<and> ClientSizeX window' = ClientSizeX window
         \<and> ClientSizeY window' = ClientSizeY window
         \<and> PositionX window' = PositionX window
         \<and> PositionY window' = PositionY window
         \<and> calls = snd (snd (ResizeBackBuffer env window phys_x phys_y))
         \<and> (BackBufferMemory window = nullptr \<longrightarrow>
               hd calls = VirtualAlloc (ucast phys_x * ucast phys_y * 4))
         \<and> (BackBufferMemory window = nullptr
               \<and> VirtualAlloc_result env (ucast phys_x * ucast phys_y * 4) \<noteq> nullptr \<longrightarrow>
               calls = [VirtualAlloc (ucast phys_x * ucast phys_y * 4)]
             \<and> BackBufferMemory window' = VirtualAlloc_result env (ucast phys_x * ucast phys_y * 4)
             \<and> BackBufferWidth window' = phys_x
             \<and> BackBufferHeight window' = phys_y
             \<and> BackBufferStride window' = phys_x * 4)
         \<and> (BackBufferMemory window = nullptr
               \<and> VirtualAlloc_result env (ucast phys_x * ucast phys_y * 4) = nullptr \<longrightarrow>
               calls = [VirtualAlloc (ucast phys_x * ucast phys_y * 4)]
             \<and> BackBufferMemory window' = nullptr)
         \<and> (ClientSizeX window = 800 \<and> ClientSizeY window = 600
               \<and> dpi_x = 96 \<and> dpi_y = 96 \<longrightarrow>
               phys_x = 800 \<and> phys_y = 600
             \<and> (ucast phys_x * ucast phys_y * 4 :: size_t) = 800 * 600 * 4
             \<and> phys_x * 4 = 3200)"
proof -
  note dpi = call_GetDpiForMonitor_resolves [OF resolved]
  define size_x where "size_x = ((right rc - left rc) * USER_DEFAULT_SCREEN_DPI) div dpi_x"
  define size_y where "size_y = ((bottom rc - top' rc) * USER_DEFAULT_SCREEN_DPI) div dpi_y"
  define window1 where "window1 = window
      \<lparr>StatusFlags := WSI_WINDOW_STATUS_FLAG_CREATED,
       EventFlags := (WSI_WINDOW_EVENT_FLAG_CREATED OR WSI_WINDOW_EVENT_FLAG_SIZE_CHANGED)
                       OR WSI_WINDOW_EVENT_FLAG_POSITION_CHANGED,
       OutputDpiX := dpi_x, OutputDpiY := dpi_y,
       WindowSizeX := size_x, WindowSizeY := size_y\<rparr>"
  define window' where "window' = fst (snd (ResizeBackBuffer env window1 phys_x phys_y))"
  define calls where "calls = snd (snd (ResizeBackBuffer env window1 phys_x phys_y))"
  have run: "WSI_WndProc_WM_CREATE env window wparam lparam =
      Some (0, window',
            queries @
            SetWindowPos 0 0 (right rc - left rc) (bottom rc - top' rc)
              (SWP_NOACTIVATE OR SWP_NOMOVE OR SWP_NOZORDER) # calls)"
    using nonzero
    by (simp add: WSI_WndProc_WM_CREATE_def dpi Let_def case_prod_beta
        PhysicalToLogicalPixels_def phys [symmetric] outer [symmetric]
        window'_def calls_def window1_def size_x_def size_y_def)
  have same: "BackBufferMemory window1 = BackBufferMemory window"
    "BackBufferWidth window1 = BackBufferWidth window"
    "BackBufferHeight window1 = BackBufferHeight window"
    "BackBufferStride window1 = BackBufferStride window"
    by (simp_all add: window1_def)
  have calls: "calls = snd (snd (ResizeBackBuffer env window phys_x phys_y))"
    unfolding calls_def by (rule ResizeBackBuffer_ignores_other_fields(2) [OF same])
  have fields: "StatusFlags window' = WSI_WINDOW_STATUS_FLAG_CREATED"
    "EventFlags window' =
       (WSI_WINDOW_EVENT_FLAG_CREATED OR WSI_WINDOW_EVENT_FLAG_SIZE_CHANGED)
         OR WSI_WINDOW_EVENT_FLAG_POSITION_CHANGED"
    "OutputDpiX window' = dpi_x" "OutputDpiY window' = dpi_y"
    "WindowSizeX window' = size_x" "WindowSizeY window' = size_y"
    "ClientSizeX window' = ClientSizeX window" "ClientSizeY window' = ClientSizeY window"
    "PositionX window' = PositionX window" "PositionY window' = PositionY window"
    by (simp_all add: window'_def ResizeBackBuffer_state_frame window1_def)
  have request: "hd calls = VirtualAlloc (ucast phys_x * ucast phys_y * 4)"
    if "BackBufferMemory window = nullptr"
    using that unfolding calls by (simp add: ResizeBackBuffer_def Let_def)
  have installed: "calls = [VirtualAlloc (ucast phys_x * ucast phys_y * 4)]
      \<and> BackBufferMemory window' = VirtualAlloc_result env (ucast phys_x * ucast phys_y * 4)
      \<and> BackBufferWidth window' = phys_x \<and> BackBufferHeight window' = phys_y
      \<and> BackBufferStride window' = phys_x * 4"
    if "BackBufferMemory window = nullptr"
      and "VirtualAlloc_result env (ucast phys_x * ucast phys_y * 4) \<noteq> nullptr"
    using that same unfolding calls_def window'_def
    by (simp add: ResizeBackBuffer_def Let_def)
  have refused: "calls = [VirtualAlloc (ucast phys_x * ucast phys_y * 4)]
      \<and> BackBufferMemory window' = nullptr"
    if "BackBufferMemory window = nullptr"
      and "VirtualAlloc_result env (ucast phys_x * ucast phys_y * 4) = nullptr"
    using that same unfolding calls_def window'_def
    by (simp add: ResizeBackBuffer_def Let_def)
  have scenario: "phys_x = 800 \<and> phys_y = 600
      \<and> (ucast phys_x * ucast phys_y * 4 :: size_t) = 800 * 600 * 4 \<and> phys_x * 4 = 3200"
    if "ClientSizeX window = 800 \<and> ClientSizeY window = 600 \<and> dpi_x = 96 \<and> dpi_y = 96"
    using that
    by (simp add: phys LogicalToPhysicalPixels_def USER_DEFAULT_SCREEN_DPI_def)
  show ?thesis
    apply (rule exI [of _ window'])
    apply (rule exI [of _ calls])
    using run calls fields request installed refused scenario nonzero
    by (simp add: PhysicalToLogicalPixels_def size_x_def size_y_def)
qed

lemma wWinMain_init_desktop:
  "wWinMain_init shcore_api desktop_work_area =
     \<lparr>Win32Handle = 0, StatusFlags = 0, EventFlags = 0, OutputDpiX = 96, OutputDpiY = 96,
      PositionX = 560, PositionY = 220, WindowSizeX = 800, WindowSizeY = 600,
      ClientSizeX = 800, ClientSizeY = 600,
      RestoreRect = \<lparr>left = 0, top' = 0, right = 0, bottom = 0\<rparr>,
      RestoreStyle = 0x06CF0000, RestoreStyleEx = 0,
      BackBufferMemory = 0, BackBufferWidth = 0, BackBufferHeight = 0, BackBufferStride = 0,
      BackBufferInfo = zero_BITMAPINFOHEADER, Win32Api = shcore_api\<rparr>"
  by (simp add: wWinMain_init_def desktop_work_area_def Let_def nullptr_def
      WSI_WINDOW_STATUS_FLAGS_NONE_def WSI_WINDOW_EVENT_FLAGS_NONE_def
      USER_DEFAULT_SCREEN_DPI_def WS_OVERLAPPEDWINDOW_def WS_CLIPCHILDREN_def
      WS_CLIPSIBLINGS_def word_sless_alt)

lemma wWinMain_init_fields:
  "Win32Api (wWinMain_init api work) = api"
  "BackBufferMemory (wWinMain_init api work) = nullptr"
  by (simp_all add: wWinMain_init_def Let_def)

theorem C6_create_allocates_witness:
  "(\<exists>window'.
      WSI_WndProc_WM_CREATE (desktop_env (block_at 0x20000))
          (wWinMain_init shcore_api desktop_work_area) 0 0 =
        Some (0, window', [SetWindowPos 0 0 816 639 22, VirtualAlloc 1920000])
    \<and> StatusFlags window' = 1
    \<and> EventFlags window' = 193
    \<and> OutputDpiX window' = 96 \<and> OutputDpiY window' = 96
    \<and> WindowSizeX window' = 816 \<and> WindowSizeY window' = 639
    \<and> ClientSizeX window' = 800 \<and> ClientSizeY window' = 600
    \<and> BackBufferMemory window' = 0x20000
    \<and> BackBufferWidth window' = 800
    \<and> BackBufferHeight window' = 600
    \<and> BackBufferStride window' = 3200)
   \<and> (\<exists>window'.
      WSI_WndProc_WM_CREATE (legacy_env (block_at 0x20000))
          (wWinMain_init stub_api desktop_work_area) 0 0 =
        Some (0, window',
              [GetDC nullptr, ReleaseDC nullptr, SetWindowPos 0 0 1016 789 22,
               VirtualAlloc 3000000])
    \<and> OutputDpiX window' = 120 \<and> OutputDpiY window' = 120
    \<and> WindowSizeX window' = 812 \<and> WindowSizeY window' = 631
    \<and> BackBufferMemory window' = 0x20000
    \<and> BackBufferWidth window' = 1000
    \<and> BackBufferHeight window' = 750
    \<and> BackBufferStride window' = 4000)"
proof -
  have nonzero: "(96 :: 32 word) \<noteq> 0" "(120 :: 32 word) \<noteq> 0" by simp_all
  have flags: "WSI_WINDOW_STATUS_FLAG_CREATED = 1"
    "(WSI_WINDOW_EVENT_FLAG_CREATED OR WSI_WINDOW_EVENT_FLAG_SIZE_CHANGED)
       OR WSI_WINDOW_EVENT_FLAG_POSITION_CHANGED = 193"
    "SWP_NOACTIVATE OR SWP_NOMOVE OR SWP_NOZORDER = 22"
    by (simp_all add: WSI_WINDOW_STATUS_FLAG_CREATED_def WSI_WINDOW_EVENT_FLAG_CREATED_def
        WSI_WINDOW_EVENT_FLAG_SIZE_CHANGED_def WSI_WINDOW_EVENT_FLAG_POSITION_CHANGED_def
        SWP_NOACTIVATE_def SWP_NOMOVE_def SWP_NOZORDER_def)
  have first: "\<exists>window'.
      WSI_WndProc_WM_CREATE (desktop_env (block_at 0x20000))
          (wWinMain_init shcore_api desktop_work_area) 0 0 =
        Some (0, window', [SetWindowPos 0 0 816 639 22, VirtualAlloc 1920000])
    \<and> StatusFlags window' = 1
    \<and> EventFlags window' = 193
    \<and> OutputDpiX window' = 96 \<and> OutputDpiY window' = 96
    \<and> WindowSizeX window' = 816 \<and> WindowSizeY window' = 639
    \<and> ClientSizeX window' = 800 \<and> ClientSizeY window' = 600
    \<and> BackBufferMemory window' = 0x20000
    \<and> BackBufferWidth window' = 800
    \<and> BackBufferHeight window' = 600
    \<and> BackBufferStride window' = 3200"
  proof -
    let ?env = "desktop_env (block_at 0x20000)"
    let ?window = "wWinMain_init shcore_api desktop_work_area"
    have resolved: "GetDpiForMonitor (Win32Api ?window) = Shcore
          \<and> monitor_dpi ?env = Some (96, 96) \<and> [] = ([] :: win32_call list)
        \<or> GetDpiForMonitor (Win32Api ?window) = Shcore \<and> monitor_dpi ?env = None
          \<and> 96 = USER_DEFAULT_SCREEN_DPI \<and> 96 = USER_DEFAULT_SCREEN_DPI
          \<and> [] = ([] :: win32_call list)
        \<or> GetDpiForMonitor (Win32Api ?window) = Stub \<and> device_caps ?env = (96, 96)
          \<and> [] = [GetDC nullptr, ReleaseDC nullptr]"
      by (simp add: wWinMain_init_fields shcore_api_def desktop_env_def)
    have client: "ClientSizeX ?window = 800" "ClientSizeY ?window = 600"
      by (simp_all add: wWinMain_init_desktop)
    have phys: "(800 :: 32 word) = LogicalToPhysicalPixels (ClientSizeX ?window) 96"
      "(600 :: 32 word) = LogicalToPhysicalPixels (ClientSizeY ?window) 96"
      by (simp_all add: client LogicalToPhysicalPixels_def USER_DEFAULT_SCREEN_DPI_def)
    have outer: "\<lparr>left = - 8, top' = - 31, right = 808, bottom = 608\<rparr> =
        AdjustWindowRectEx ?env \<lparr>left = 0, top' = 0, right = 800, bottom = 600\<rparr>
          (window_style ?env) (window_style_ex ?env)"
      by (simp add: desktop_env_def frame_rect_def WS_POPUP_def)
    have given: "VirtualAlloc_result ?env (ucast (800 :: 32 word) * ucast (600 :: 32 word) * 4)
        \<noteq> nullptr"
      "VirtualAlloc_result ?env (ucast (800 :: 32 word) * ucast (600 :: 32 word) * 4) = 0x20000"
      by (simp_all add: desktop_env_def block_at_def nullptr_def)
    have sizes: "PhysicalToLogicalPixels 816 96 = Some 816"
      "PhysicalToLogicalPixels 639 96 = Some 639"
      by (simp_all add: PhysicalToLogicalPixels_def USER_DEFAULT_SCREEN_DPI_def)
    from C6_create_allocates [OF resolved nonzero(1) nonzero(1) phys outer, of 0 0]
    show ?thesis
      using wWinMain_init_fields(2) [of shcore_api desktop_work_area] given sizes client
      by (auto simp: flags)
  qed
  have second: "\<exists>window'.
      WSI_WndProc_WM_CREATE (legacy_env (block_at 0x20000))
          (wWinMain_init stub_api desktop_work_area) 0 0 =
        Some (0, window',
              [GetDC nullptr, ReleaseDC nullptr, SetWindowPos 0 0 1016 789 22,
               VirtualAlloc 3000000])
    \<and> OutputDpiX window' = 120 \<and> OutputDpiY window' = 120
    \<and> WindowSizeX window' = 812 \<and> WindowSizeY window' = 631
    \<and> BackBufferMemory window' = 0x20000
    \<and> BackBufferWidth window' = 1000
    \<and> BackBufferHeight window' = 750
    \<and> BackBufferStride window' = 4000"
  proof -
    let ?env = "legacy_env (block_at 0x20000)"
    let ?window = "wWinMain_init stub_api desktop_work_area"
    have resolved: "GetDpiForMonitor (Win32Api ?window) = Shcore
          \<and> monitor_dpi ?env = Some (120, 120) \<and> [GetDC nullptr, ReleaseDC nullptr] = []
        \<or> GetDpiForMonitor (Win32Api ?window) = Shcore \<and> monitor_dpi ?env = None
          \<and> 120 = USER_DEFAULT_SCREEN_DPI \<and> 120 = USER_DEFAULT_SCREEN_DPI
          \<and> [GetDC nullptr, ReleaseDC nullptr] = []
        \<or> GetDpiForMonitor (Win32Api ?window) = Stub \<and> device_caps ?env = (120, 120)
          \<and> [GetDC nullptr, ReleaseDC nullptr] = [GetDC nullptr, ReleaseDC nullptr]"
      by (simp add: wWinMain_init_fields stub_api_def wWinMain_resolve_def legacy_env_def)
    have client: "ClientSizeX ?window = 800" "ClientSizeY ?window = 600"
      by (simp_all add: wWinMain_init_def desktop_work_area_def Let_def word_sless_alt)
    have phys: "(1000 :: 32 word) = LogicalToPhysicalPixels (ClientSizeX ?window) 120"
      "(750 :: 32 word) = LogicalToPhysicalPixels (ClientSizeY ?window) 120"
      by (simp_all add: client LogicalToPhysicalPixels_def USER_DEFAULT_SCREEN_DPI_def)
    have outer: "\<lparr>left = - 8, top' = - 31, right = 1008, bottom = 758\<rparr> =
        AdjustWindowRectEx ?env \<lparr>left = 0, top' = 0, right = 1000, bottom = 750\<rparr>
          (window_style ?env) (window_style_ex ?env)"
      by (simp add: legacy_env_def desktop_env_def frame_rect_def WS_POPUP_def)
    have given: "VirtualAlloc_result ?env (ucast (1000 :: 32 word) * ucast (750 :: 32 word) * 4)
        \<noteq> nullptr"
      "VirtualAlloc_result ?env (ucast (1000 :: 32 word) * ucast (750 :: 32 word) * 4) = 0x20000"
      by (simp_all add: legacy_env_def desktop_env_def block_at_def nullptr_def)
    have sizes: "PhysicalToLogicalPixels 1016 120 = Some 812"
      "PhysicalToLogicalPixels 789 120 = Some 631"
      by (simp_all add: PhysicalToLogicalPixels_def USER_DEFAULT_SCREEN_DPI_def)
    from C6_create_allocates [OF resolved nonzero(2) nonzero(2) phys outer, of 0 0]
    show ?thesis
      using wWinMain_init_fields(2) [of stub_api desktop_work_area] given sizes
      by (auto simp: flags)
  qed
  from first second show ?thesis by blast
qed

text \<open>
  The unamended claim does not restrict the DPI. On the stub path with a screen whose
  device context reports a pixel density of 0, the handler resizes the outer window for
  a client area of 0 by 0 and then divides by zero while converting the outer size to
  logical pixels: no state is set and no backbuffer is requested.
\<close>

theorem C6_zero_dpi_counterexample:
  "WSI_WndProc_WM_CREATE (blank_env (block_at 0x20000))
       (wWinMain_init stub_api desktop_work_area) 0 0 = None
   \<and> call_GetDpiForMonitor (Win32Api (wWinMain_init stub_api desktop_work_area))
         (blank_env (block_at 0x20000))
       = ((0, 0), [GetDC nullptr, ReleaseDC nullptr])
   \<and> PhysicalToLogicalPixels 16 0 = None"
  by (simp add: WSI_WndProc_WM_CREATE_def Let_def wWinMain_init_fields
      call_GetDpiForMonitor_def GetDpiForMonitor_Stub_def stub_api_def wWinMain_resolve_def
      blank_env_def PhysicalToLogicalPixels_def)

section \<open>Properties of the DPI handler\<close>

text \<open>
  C5 (amended). For a window whose style has no \<^verbatim>\<open>WS_POPUP\<close> bit and a notification
  whose two DPI values are not zero, the handler converts the stored logical client
  size to physical pixels at the new DPI, and moves and resizes the outer window to the
  decorated form of the rectangle that has the suggested top-left corner and the new
  physical client size; the suggested right and bottom edges are not used. It stores
  the new DPI, the top-left corner of that decorated rectangle as the position and its
  size in logical pixels as the window size, leaves the logical client size, adds
  SizeChanged to the event flags in every case and PositionChanged exactly when the
  suggested corner differs from the stored position, and resizes the backbuffer to the
  new physical client size.
\<close>

theorem C5_dpi_changed_decorated:
  assumes decorated: "window_style env AND WS_POPUP = 0"
    and dpi: "dpi_x = ucast (LOWORD wparam)" "dpi_y = ucast (HIWORD wparam)"
    and nonzero: "dpi_x \<noteq> 0" "dpi_y \<noteq> 0"
    and phys: "phys_x = LogicalToPhysicalPixels (ClientSizeX window) dpi_x"
      "phys_y = LogicalToPhysicalPixels (ClientSizeY window) dpi_y"
    and suggested: "sug = suggested_rect env"
    and outer: "rc = AdjustWindowRectEx env
        \<lparr>left = left sug, top' = top' sug,
         right = left sug + phys_x, bottom = top' sug + phys_y\<rparr>
        (window_style env) (window_style_ex env)"
  shows "\<exists>window' calls.
           WSI_WndProc_WM_DPICHANGED env window wparam lparam =
             Some (0, window',
                   SetWindowPos (left rc) (top' rc) (right rc - left rc) (bottom rc - top' rc)
                     (SWP_NOACTIVATE OR SWP_NOZORDER) # calls)
         \<and> OutputDpiX window' = dpi_x \<and> OutputDpiY window' = dpi_y
         \<and> PositionX window' = left rc \<and> PositionY window' = top' rc
         \<and> PhysicalToLogicalPixels (right rc - left rc) dpi_x = Some (WindowSizeX window')
         \<and> PhysicalToLogicalPixels (bottom rc - top' rc) dpi_y = Some (WindowSizeY window')
         \<and> ClientSizeX window' = ClientSizeX window
         \<and> ClientSizeY window' = ClientSizeY window
         \<and> StatusFlags window' = StatusFlags window
         \<and> EventFlags window' =
             EventFlags window OR
               (WSI_WINDOW_EVENT_FLAG_SIZE_CHANGED OR
                  (if left sug \<noteq> PositionX window \<or> top' sug \<noteq> PositionY window
                   then WSI_WINDOW_EVENT_FLAG_POSITION_CHANGED else 0))
         \<and> EventFlags window' AND WSI_WINDOW_EVENT_FLAG_SIZE_CHANGED \<noteq> 0
         \<and> (left sug \<noteq> PositionX window \<or> top' sug \<noteq> PositionY window \<longrightarrow>
               EventFlags window' AND WSI_WINDOW_EVENT_FLAG_POSITION_CHANGED \<noteq> 0)
         \<and> (left sug = PositionX window \<and> top' sug = PositionY window \<longrightarrow>
               EventFlags window' AND WSI_WINDOW_EVENT_FLAG_POSITION_CHANGED
                 = EventFlags window AND WSI_WINDOW_EVENT_FLAG_POSITION_CHANGED)
         \<and> calls = snd (snd (ResizeBackBuffer env window phys_x phys_y))
         \<and> BackBufferMemory window'
             = BackBufferMemory (fst (snd (ResizeBackBuffer env window phys_x phys_y)))
         \<and> BackBufferWidth window'
             = BackBufferWidth (fst (snd (ResizeBackBuffer env window phys_x phys_y)))
         \<and> BackBufferHeight window'
             = BackBufferHeight (fst (snd (ResizeBackBuffer env window phys_x phys_y)))
         \<and> BackBufferStride window'
             = BackBufferStride (fst (snd (ResizeBackBuffer env window phys_x phys_y)))
         \<and> (fst (ResizeBackBuffer env window phys_x phys_y) = 0 \<longrightarrow>
               BackBufferMemory window' \<noteq> nullptr
             \<and> BackBufferWidth window' = phys_x
             \<and> BackBufferHeight window' = phys_y)"
proof -
  define moved where
    "moved \<longleftrightarrow> left sug \<noteq> PositionX window \<or> top' sug \<noteq> PositionY window"
  define flags where
    "flags = (if moved then WSI_WINDOW_EVENT_FLAG_POSITION_CHANGED else (0 :: 32 word))"
  define size_x where "size_x = ((right rc - left rc) * USER_DEFAULT_SCREEN_DPI) div dpi_x"
  define size_y where "size_y = ((bottom rc - top' rc) * USER_DEFAULT_SCREEN_DPI) div dpi_y"
  define window1 where "window1 = window
      \<lparr>OutputDpiX := dpi_x, OutputDpiY := dpi_y,
       PositionX := left rc, PositionY := top' rc,
       WindowSizeX := size_x, WindowSizeY := size_y,
       EventFlags := EventFlags window OR (WSI_WINDOW_EVENT_FLAG_SIZE_CHANGED OR flags)\<rparr>"
  define window' where "window' = fst (snd (ResizeBackBuffer env window1 phys_x phys_y))"
  define calls where "calls = snd (snd (ResizeBackBuffer env window1 phys_x phys_y))"
  have run: "WSI_WndProc_WM_DPICHANGED env window wparam lparam =
      Some (0, window',
            SetWindowPos (left rc) (top' rc) (right rc - left rc) (bottom rc - top' rc)
              (SWP_NOACTIVATE OR SWP_NOZORDER) # calls)"
    using nonzero decorated
    by (simp add: WSI_WndProc_WM_DPICHANGED_def Let_def case_prod_beta
        dpi [symmetric] phys [symmetric] suggested [symmetric] outer [symmetric]
        PhysicalToLogicalPixels_def WSI_WINDOW_EVENT_FLAGS_NONE_def
        window'_def calls_def window1_def size_x_def size_y_def flags_def moved_def)
  have same: "BackBufferMemory window1 = BackBufferMemory window"
    "BackBufferWidth window1 = BackBufferWidth window"
    "BackBufferHeight window1 = BackBufferHeight window"
    "BackBufferStride window1 = BackBufferStride window"
    by (simp_all add: window1_def)
  note other = ResizeBackBuffer_ignores_other_fields [OF same, of env phys_x phys_y]
  have calls: "calls = snd (snd (ResizeBackBuffer env window phys_x phys_y))"
    unfolding calls_def by (rule other(2))
  have buffer: "BackBufferMemory window'
        = BackBufferMemory (fst (snd (ResizeBackBuffer env window phys_x phys_y)))"
      "BackBufferWidth window'
        = BackBufferWidth (fst (snd (ResizeBackBuffer env window phys_x phys_y)))"
      "BackBufferHeight window'
        = BackBufferHeight (fst (snd (ResizeBackBuffer env window phys_x phys_y)))"
      "BackBufferStride window'
        = BackBufferStride (fst (snd (ResizeBackBuffer env window phys_x phys_y)))"
    unfolding window'_def by (rule other(3) other(4) other(5) other(6))+
  have fields: "OutputDpiX window' = dpi_x" "OutputDpiY window' = dpi_y"
    "PositionX window' = left rc" "PositionY window' = top' rc"
    "WindowSizeX window' = size_x" "WindowSizeY window' = size_y"
    "ClientSizeX window' = ClientSizeX window" "ClientSizeY window' = ClientSizeY window"
    "StatusFlags window' = StatusFlags window"
    "EventFlags window' = EventFlags window OR (WSI_WINDOW_EVENT_FLAG_SIZE_CHANGED OR flags)"
    by (simp_all add: window'_def ResizeBackBuffer_state_frame window1_def)
  have sized: "EventFlags window' AND WSI_WINDOW_EVENT_FLAG_SIZE_CHANGED \<noteq> 0"
  proof -
    have "(WSI_WINDOW_EVENT_FLAG_SIZE_CHANGED OR flags)
        AND WSI_WINDOW_EVENT_FLAG_SIZE_CHANGED \<noteq> 0"
      by (rule flag_stays_set) (simp add: WSI_WINDOW_EVENT_FLAG_SIZE_CHANGED_def)
    then have "((WSI_WINDOW_EVENT_FLAG_SIZE_CHANGED OR flags) OR EventFlags window)
        AND WSI_WINDOW_EVENT_FLAG_SIZE_CHANGED \<noteq> 0"
      by (rule flag_stays_set)
    then show ?thesis unfolding fields by (simp add: or.commute)
  qed
  have positioned: "EventFlags window' AND WSI_WINDOW_EVENT_FLAG_POSITION_CHANGED \<noteq> 0"
    if moved
  proof -
    have "(WSI_WINDOW_EVENT_FLAG_POSITION_CHANGED OR WSI_WINDOW_EVENT_FLAG_SIZE_CHANGED)
        AND WSI_WINDOW_EVENT_FLAG_POSITION_CHANGED \<noteq> 0"
      by (rule flag_stays_set) (simp add: WSI_WINDOW_EVENT_FLAG_POSITION_CHANGED_def)
    then have "((WSI_WINDOW_EVENT_FLAG_POSITION_CHANGED OR WSI_WINDOW_EVENT_FLAG_SIZE_CHANGED)
        OR EventFlags window) AND WSI_WINDOW_EVENT_FLAG_POSITION_CHANGED \<noteq> 0"
      by (rule flag_stays_set)
    then show ?thesis unfolding fields using that by (simp add: flags_def or.commute)
  qed
  have unmoved: "EventFlags window' AND WSI_WINDOW_EVENT_FLAG_POSITION_CHANGED
      = EventFlags window AND WSI_WINDOW_EVENT_FLAG_POSITION_CHANGED" if "\<not> moved"
    unfolding fields using that
    by (simp add: flags_def bit.conj_disj_distrib2 WSI_WINDOW_EVENT_FLAG_SIZE_CHANGED_def
        WSI_WINDOW_EVENT_FLAG_POSITION_CHANGED_def)
  have success: "BackBufferMemory window' \<noteq> nullptr \<and> BackBufferWidth window' = phys_x
      \<and> BackBufferHeight window' = phys_y"
    if "fst (ResizeBackBuffer env window phys_x phys_y) = 0"
    unfolding buffer using that
    by (cases rule: ResizeBackBuffer_cases [of env window phys_x phys_y]) simp_all
  show ?thesis
    apply (rule exI [of _ window'])
    apply (rule exI [of _ calls])
    using run calls buffer fields(1-9) sized positioned unmoved success nonzero
    by (simp add: PhysicalToLogicalPixels_def size_x_def size_y_def fields(10) flags_def
        moved_def)
qed

theorem C5_dpi_changed_decorated_witness:
  "\<exists>window'.
     WSI_WndProc_WM_DPICHANGED (desktop_env (block_at 0x30000)) shown_window 0xC000C0 0 =
       Some (0, window',
             [SetWindowPos 92 69 1616 1239 20, VirtualAlloc 7680000, VirtualFree 0x20000])
   \<and> OutputDpiX window' = 192 \<and> OutputDpiY window' = 192
   \<and> PositionX window' = 92 \<and> PositionY window' = 69
   \<and> WindowSizeX window' = 808 \<and> WindowSizeY window' = 619
   \<and> ClientSizeX window' = 800 \<and> ClientSizeY window' = 600
   \<and> EventFlags window' = 192
   \<and> BackBufferMemory window' = 0x30000
   \<and> BackBufferWidth window' = 1600
   \<and> BackBufferHeight window' = 1200"
proof -
  let ?env = "desktop_env (block_at 0x30000)"
  have decorated: "window_style ?env AND WS_POPUP = 0"
    by (simp add: desktop_env_def WS_POPUP_def)
  have dpi: "(192 :: 32 word) = ucast (LOWORD 0xC000C0)" "(192 :: 32 word) = ucast (HIWORD 0xC000C0)"
    by (simp_all add: LOWORD_def HIWORD_def)
  have nonzero: "(192 :: 32 word) \<noteq> 0" by simp
  have phys: "(1600 :: 32 word) = LogicalToPhysicalPixels (ClientSizeX shown_window) 192"
    "(1200 :: 32 word) = LogicalToPhysicalPixels (ClientSizeY shown_window) 192"
    by (simp_all add: shown_window_def LogicalToPhysicalPixels_def USER_DEFAULT_SCREEN_DPI_def)
  have suggested: "\<lparr>left = 100, top' = 100, right = 500, bottom = 400\<rparr> = suggested_rect ?env"
    by (simp add: desktop_env_def)
  have outer: "\<lparr>left = 92, top' = 69, right = 1708, bottom = 1308\<rparr> =
      AdjustWindowRectEx ?env
        \<lparr>left = left \<lparr>left = 100, top' = 100, right = 500, bottom = 400\<rparr>,
         top' = top' \<lparr>left = 100, top' = 100, right = 500, bottom = 400\<rparr>,
         right = left \<lparr>left = 100, top' = 100, right = 500, bottom = (400 :: 32 word)\<rparr> + 1600,
         bottom = top' \<lparr>left = 100, top' = 100, right = 500, bottom = (400 :: 32 word)\<rparr> + 1200\<rparr>
        (window_style ?env) (window_style_ex ?env)"
    by (simp add: desktop_env_def frame_rect_def WS_POPUP_def)
  have resize: "ResizeBackBuffer ?env shown_window 1600 1200 =
      (0,
       shown_window\<lparr>BackBufferInfo := zero_BITMAPINFOHEADER
            \<lparr>biSize := sizeof_BITMAPINFOHEADER, biWidth := 1600, biHeight := - 1200,
             biPlanes := 1, biBitCount := 32, biCompression := BI_RGB\<rparr>,
          BackBufferMemory := 0x30000, BackBufferWidth := 1600, BackBufferHeight := 1200,
          BackBufferStride := 6400\<rparr>,
       [VirtualAlloc 7680000, VirtualFree 0x20000])"
    by (simp add: ResizeBackBuffer_def Let_def shown_window_def desktop_env_def block_at_def
        nullptr_def)
  have sizes: "PhysicalToLogicalPixels 1616 192 = Some 808"
    "PhysicalToLogicalPixels 1239 192 = Some 619"
    by (simp_all add: PhysicalToLogicalPixels_def USER_DEFAULT_SCREEN_DPI_def)
  have before: "EventFlags shown_window = 0" "ClientSizeX shown_window = 800"
    "ClientSizeY shown_window = 600" "PositionX shown_window = 560"
    by (simp_all add: shown_window_def)
  from C5_dpi_changed_decorated [OF decorated dpi nonzero nonzero phys suggested outer]
  show ?thesis
    using resize sizes before
    by (auto simp: SWP_NOACTIVATE_def SWP_NOZORDER_def WSI_WINDOW_EVENT_FLAG_SIZE_CHANGED_def
        WSI_WINDOW_EVENT_FLAG_POSITION_CHANGED_def)
qed

text \<open>
  The unamended claim has the outer window resized to the suggested rectangle adjusted
  for decoration. For the shown window of 800 by 600 logical pixels, a change to 192 DPI
  with the suggestion (100,100)-(500,400) resizes the window to 1616 by 1239, the
  decorated size of the 1600 by 1200 client area, and not to the 416 by 339 of the
  decorated suggestion.
\<close>

theorem C5_suggested_size_counterexample:
  "map_option (snd \<circ> snd)
       (WSI_WndProc_WM_DPICHANGED (desktop_env (block_at 0x30000)) shown_window 0xC000C0 0)
     = Some [SetWindowPos 92 69 1616 1239 20, VirtualAlloc 7680000, VirtualFree 0x20000]
   \<and> suggested_rect (desktop_env (block_at 0x30000))
       = \<lparr>left = 100, top' = 100, right = 500, bottom = 400\<rparr>
   \<and> AdjustWindowRectEx (desktop_env (block_at 0x30000))
         (suggested_rect (desktop_env (block_at 0x30000)))
         (window_style (desktop_env (block_at 0x30000)))
         (window_style_ex (desktop_env (block_at 0x30000)))
       = \<lparr>left = 92, top' = 69, right = 508, bottom = 408\<rparr>
   \<and> (508 - 92 :: 32 word) \<noteq> 1616 \<and> (408 - 69 :: 32 word) \<noteq> 1239"
  by (simp add: WSI_WndProc_WM_DPICHANGED_def Let_def case_prod_beta desktop_env_def
      block_at_def shown_window_def frame_rect_def WS_POPUP_def LOWORD_def HIWORD_def
      LogicalToPhysicalPixels_def PhysicalToLogicalPixels_def USER_DEFAULT_SCREEN_DPI_def
      ResizeBackBuffer_def nullptr_def SWP_NOACTIVATE_def SWP_NOZORDER_def
      WSI_WINDOW_EVENT_FLAGS_NONE_def)


end
